theory Spec2Isabelle
  imports Main
begin

section \<open>Python strings\<close>

text \<open>
  A Python \<open>str\<close> is modelled as a \<open>string\<close> whose characters stand for the code points
  below 256; strings that hold a code point of 256 or more are outside the model. \<open>lower\<close>
  is \<open>str.lower\<close> on that range (the ASCII capitals and the Latin-1 capitals
  \<open>U+00C0..U+00DE\<close> without \<open>U+00D7\<close> move up by 32). Beyond that range \<open>str.lower\<close> can
  turn a character that is not ASCII into an ASCII letter (\<open>U+212A\<close> into \<open>k\<close>), so nothing
  below concludes from a match of \<open>lower s\<close> that \<open>s\<close> matches unless \<open>s\<close> is known to hold
  ASCII characters only (\<open>isascii\<close>, which is \<open>str.isascii\<close>). \<open>isspace\<close> is the set of
  characters \<open>str.strip\<close> removes, and \<open>contains sub s\<close> is the test \<open>sub in s\<close>.
\<close>

definition lower_char :: "char \<Rightarrow> char" where
  "lower_char c =
     (let n = (of_char c :: nat) in
      if (65 \<le> n \<and> n \<le> 90) \<or> (192 \<le> n \<and> n \<le> 214) \<or> (216 \<le> n \<and> n \<le> 222)
      then char_of (n + 32) else c)"

definition lower :: "string \<Rightarrow> string" where
  "lower s = map lower_char s"

definition isascii :: "string \<Rightarrow> bool" where
  "isascii s = list_all (\<lambda>c. (of_char c :: nat) < 128) s"

definition isspace :: "char \<Rightarrow> bool" where
  "isspace c = ((of_char c :: nat) \<in> set [9, 10, 11, 12, 13, 28, 29, 30, 31, 32, 133, 160])"

definition strip :: "string \<Rightarrow> string" where
  "strip s = rev (dropWhile isspace (rev (dropWhile isspace s)))"

fun startswith :: "string \<Rightarrow> string \<Rightarrow> bool" where
  "startswith s [] = True"
| "startswith [] (p # ps) = False"
| "startswith (c # cs) (p # ps) = (c = p \<and> startswith cs ps)"

fun contains :: "string \<Rightarrow> string \<Rightarrow> bool" where
  "contains sub [] = (sub = [])"
| "contains sub (c # cs) = (if startswith (c # cs) sub then True else contains sub cs)"

section \<open>Regular expressions of the \<open>re\<close> module\<close>

text \<open>
  The two patterns of the source use character classes, concatenation, \<open>+\<close>, \<open>*\<close> and
  \<open>{2,}\<close> between the anchors \<open>^\<close> and \<open>$\<close>. A class is a list of code point ranges;
  a word is matched against a pattern by Brzozowski derivatives. \<open>re.match\<close> with a
  pattern \<open>^r$\<close> accepts a string when all of it matches \<open>r\<close>, or when it ends in a
  line feed and all of it before that line feed matches \<open>r\<close> (\<open>$\<close> also matches just
  before a final line feed).
\<close>

datatype regex =
    Zero
  | One
  | Chars "(nat \<times> nat) list"
  | Alt regex regex
  | Seq regex regex
  | Star regex

fun in_class :: "(nat \<times> nat) list \<Rightarrow> char \<Rightarrow> bool" where
  "in_class [] c = False"
| "in_class ((lo, hi) # rs) c = (if lo \<le> of_char c \<and> of_char c \<le> hi then True else in_class rs c)"

primrec nullable :: "regex \<Rightarrow> bool" where
  "nullable Zero = False"
| "nullable One = True"
| "nullable (Chars rs) = False"
| "nullable (Alt r s) = (nullable r \<or> nullable s)"
| "nullable (Seq r s) = (nullable r \<and> nullable s)"
| "nullable (Star r) = True"

primrec deriv :: "char \<Rightarrow> regex \<Rightarrow> regex" where
  "deriv c Zero = Zero"
| "deriv c One = Zero"
| "deriv c (Chars rs) = (if in_class rs c then One else Zero)"
| "deriv c (Alt r s) = Alt (deriv c r) (deriv c s)"
| "deriv c (Seq r s) =
     (if nullable r then Alt (Seq (deriv c r) s) (deriv c s) else Seq (deriv c r) s)"
| "deriv c (Star r) = Seq (deriv c r) (Star r)"

primrec fullmatch :: "string \<Rightarrow> regex \<Rightarrow> bool" where
  "fullmatch [] r = nullable r"
| "fullmatch (c # cs) r = fullmatch cs (deriv c r)"

definition OneOrMore :: "regex \<Rightarrow> regex" where
  "OneOrMore r = Seq r (Star r)"

definition line_feed :: char where
  "line_feed = CHR 0x0A"

definition re_match :: "regex \<Rightarrow> string \<Rightarrow> bool" where
  "re_match r s =
     (if fullmatch s r then True
      else (case rev s of [] \<Rightarrow> False | c # cs \<Rightarrow> c = line_feed \<and> fullmatch (rev cs) r))"

text \<open>\<open>[a-zA-Z0-9_]\<close>, \<open>[a-zA-Z0-9._%+-]\<close>, \<open>[a-zA-Z0-9.-]\<close>, \<open>[a-zA-Z]\<close> and the literals.\<close>

definition word_class :: regex where
  "word_class = Chars [(97, 122), (65, 90), (48, 57), (95, 95)]"

definition local_class :: regex where
  "local_class = Chars [(97, 122), (65, 90), (48, 57), (46, 46), (95, 95), (37, 37), (43, 43), (45, 45)]"

definition domain_class :: regex where
  "domain_class = Chars [(97, 122), (65, 90), (48, 57), (46, 46), (45, 45)]"

definition alpha_class :: regex where
  "alpha_class = Chars [(97, 122), (65, 90)]"

definition lit :: "nat \<Rightarrow> regex" where
  "lit n = Chars [(n, n)]"

text \<open>\<open>^[a-zA-Z0-9_]+( [a-zA-Z0-9_]+)*$\<close> (entities.py line 40, value_objects.py line 46).\<close>

definition username_pattern :: regex where
  "username_pattern = Seq (OneOrMore word_class) (Star (Seq (lit 32) (OneOrMore word_class)))"

text \<open>\<open>^[a-zA-Z0-9._%+-]+@[a-zA-Z0-9.-]+\.[a-zA-Z]{2,}$\<close> (value_objects.py line 22).\<close>

definition email_pattern :: regex where
  "email_pattern =
     Seq (OneOrMore local_class)
       (Seq (lit 64)
         (Seq (OneOrMore domain_class)
           (Seq (lit 46) (Seq alpha_class (Seq alpha_class (Star alpha_class))))))"

text \<open>
  A pattern is closed under case when each of its classes holds an ASCII character
  exactly when it holds the lower-cased character; \<open>class_chars P r\<close> says that
  every character in a class of \<open>r\<close> satisfies \<open>P\<close>. Both serve the proofs only.
\<close>

primrec case_closed :: "regex \<Rightarrow> bool" where
  "case_closed Zero = True"
| "case_closed One = True"
| "case_closed (Chars rs) =
     (\<forall>c. (of_char c :: nat) < 128 \<longrightarrow> in_class rs (lower_char c) = in_class rs c)"
| "case_closed (Alt r s) = (case_closed r \<and> case_closed s)"
| "case_closed (Seq r s) = (case_closed r \<and> case_closed s)"
| "case_closed (Star r) = case_closed r"

primrec class_chars :: "(char \<Rightarrow> bool) \<Rightarrow> regex \<Rightarrow> bool" where
  "class_chars P Zero = True"
| "class_chars P One = True"
| "class_chars P (Chars rs) = (\<forall>c. in_class rs c \<longrightarrow> P c)"
| "class_chars P (Alt r s) = (class_chars P r \<and> class_chars P s)"
| "class_chars P (Seq r s) = (class_chars P r \<and> class_chars P s)"
| "class_chars P (Star r) = class_chars P r"

text \<open>
  The set of strings a pattern denotes, to state what \<open>fullmatch\<close> decides.
\<close>

inductive_set kleene :: "string set \<Rightarrow> string set" for A :: "string set" where
  kleene_empty: "[] \<in> kleene A"
| kleene_more: "u \<in> A \<Longrightarrow> v \<in> kleene A \<Longrightarrow> u @ v \<in> kleene A"

primrec lang :: "regex \<Rightarrow> string set" where
  "lang Zero = {}"
| "lang One = {[]}"
| "lang (Chars rs) = {[c] | c. in_class rs c}"
| "lang (Alt r s) = lang r \<union> lang s"
| "lang (Seq r s) = {u @ v | u v. u \<in> lang r \<and> v \<in> lang s}"
| "lang (Star r) = kleene (lang r)"

section \<open>Exceptions\<close>

text \<open>
  Every exception a modelled function can raise is a value of \<open>error\<close>; a function that
  can raise returns \<open>error + 'a\<close>. \<open>details\<close> is the \<open>details\<close>/\<open>extra\<close> dictionary of the
  domain and application exceptions. \<open>KeyboardInterrupt\<close> and \<open>SystemExit\<close> derive from
  \<open>BaseException\<close> only; every other class below derives from \<open>Exception\<close>.
  \<open>UnprintableError\<close> stands for an exception of a class of the subscriber's own that
  derives from \<open>Exception\<close> and whose \<open>__str__\<close> does not return a string, so that
  formatting it raises \<open>TypeError\<close>.
\<close>

type_synonym details = "(string \<times> string) list"

datatype error =
    ValueError string
  | AttributeError string
  | TypeError string
  | KeyboardInterrupt
  | SystemExit
  | DoesNotExist
  | MultipleObjectsReturned
  | DjangoValidationError string
  | DRFValidationError string
  | BusinessRuleViolationError string details
  | ValidationError string details
  | NotFoundError string details
  | ConflictError string details
  | UnauthorizedError string details
  | UnprintableError

primrec is_Exception :: "error \<Rightarrow> bool" where
  "is_Exception (ValueError m) = True"
| "is_Exception (AttributeError m) = True"
| "is_Exception (TypeError m) = True"
| "is_Exception KeyboardInterrupt = False"
| "is_Exception SystemExit = False"
| "is_Exception DoesNotExist = True"
| "is_Exception MultipleObjectsReturned = True"
| "is_Exception (DjangoValidationError m) = True"
| "is_Exception (DRFValidationError m) = True"
| "is_Exception (BusinessRuleViolationError m d) = True"
| "is_Exception (ValidationError m d) = True"
| "is_Exception (NotFoundError m d) = True"
| "is_Exception (ConflictError m d) = True"
| "is_Exception (UnauthorizedError m d) = True"
| "is_Exception UnprintableError = True"

text \<open>The classes of application/shared/exceptions.py (\<open>ApplicationError\<close> and its subclasses).\<close>

primrec is_ApplicationError :: "error \<Rightarrow> bool" where
  "is_ApplicationError (ValueError m) = False"
| "is_ApplicationError (AttributeError m) = False"
| "is_ApplicationError (TypeError m) = False"
| "is_ApplicationError KeyboardInterrupt = False"
| "is_ApplicationError SystemExit = False"
| "is_ApplicationError DoesNotExist = False"
| "is_ApplicationError MultipleObjectsReturned = False"
| "is_ApplicationError (DjangoValidationError m) = False"
| "is_ApplicationError (DRFValidationError m) = False"
| "is_ApplicationError (BusinessRuleViolationError m d) = False"
| "is_ApplicationError (ValidationError m d) = True"
| "is_ApplicationError (NotFoundError m d) = True"
| "is_ApplicationError (ConflictError m d) = True"
| "is_ApplicationError (UnauthorizedError m d) = True"
| "is_ApplicationError UnprintableError = False"

text \<open>The message of an exception (\<open>str(e)\<close>, \<open>e.message\<close>).\<close>

primrec message_of :: "error \<Rightarrow> string" where
  "message_of (ValueError m) = m"
| "message_of (AttributeError m) = m"
| "message_of (TypeError m) = m"
| "message_of KeyboardInterrupt = []"
| "message_of SystemExit = []"
| "message_of DoesNotExist = []"
| "message_of MultipleObjectsReturned = []"
| "message_of (DjangoValidationError m) = m"
| "message_of (DRFValidationError m) = m"
| "message_of (BusinessRuleViolationError m d) = m"
| "message_of (ValidationError m d) = m"
| "message_of (NotFoundError m d) = m"
| "message_of (ConflictError m d) = m"
| "message_of (UnauthorizedError m d) = m"
| "message_of UnprintableError = []"

text \<open>An attribute of a Python object that the object may not have.\<close>

datatype 'a attribute = Absent | Attr 'a

section \<open>Value objects (domain/user/value\_objects.py)\<close>

datatype Email = Email (email_value: string)

datatype Username = Username (username_value: string)

text \<open>
  \<open>Email.__post_init__\<close>: the pattern is matched against the value as given; the value
  is lower-cased and stripped only after it has matched.
\<close>

definition Email_post_init :: "string \<Rightarrow> error + Email" where
  "Email_post_init v =
     (if v = [] then Inl (ValueError ''Email cannot be empty'')
      else if \<not> re_match email_pattern v then Inl (ValueError ''Invalid email format'')
      else Inr (Email (strip (lower v))))"

definition Username_post_init :: "string \<Rightarrow> error + Username" where
  "Username_post_init v =
     (if v = [] then Inl (ValueError ''Username cannot be empty'')
      else if \<not> re_match username_pattern v then Inl (ValueError ''Invalid username format'')
      else Inr (Username v))"

section \<open>The User entity (domain/user/entities.py, domain/shared/entities.py)\<close>

text \<open>
  The fields of the dataclass in the order of its generated \<open>__init__\<close>: the three of
  \<open>DomainEntity\<close>, then those of \<open>User\<close>. \<open>phone_number\<close> is not a field: it is the
  instance attribute that \<open>UpdateUserUseCase.execute\<close> may create by assignment.
  Timestamps are clock readings.
\<close>

record User =
  id' :: "nat option"
  created_at :: "nat option"
  updated_at :: nat
  username :: string
  email :: string
  first_name :: "string option"
  last_name :: "string option"
  is_active :: bool
  is_staff :: bool
  is_admin :: bool
  is_superuser :: bool
  password :: "string option"
  phone_number :: "string attribute"

text \<open>
  \<open>User.__post_init__\<close>, run by the constructor on the fields just assigned. It replaces
  the one of \<open>DomainEntity\<close> (it does not call \<open>super\<close>).
\<close>

definition User_post_init :: "User \<Rightarrow> error + User" where
  "User_post_init u =
     (if username u = [] then Inl (ValueError ''Username is required'')
      else if email u = [] then Inl (ValueError ''Email is required'')
      else if \<not> re_match username_pattern (username u) then Inl (ValueError ''Invalid username format'')
      else Inr (u\<lparr>email := strip (lower (email u))\<rparr>))"

text \<open>
  Equality and hashing. \<open>DomainEntity\<close> defines \<open>__eq__\<close> (same class and equal \<open>id\<close>) and
  \<open>__hash__\<close> (\<open>hash(self.id)\<close>) in its own body. \<open>@dataclass\<close> (with its defaults
  \<open>eq=True\<close>, \<open>frozen=False\<close>, \<open>unsafe_hash=False\<close>) keeps an \<open>__eq__\<close> or \<open>__hash__\<close>
  that the decorated class defines in its own body; otherwise it sets \<open>__eq__\<close> to the
  comparison of the tuples of all fields and \<open>__hash__\<close> to \<open>None\<close>, whatever the class
  inherits. \<open>DomainEntity\<close> and \<open>User\<close> are both decorated; the body of \<open>User\<close> defines
  neither method.
\<close>

datatype eq_method = Eq_DomainEntity | Eq_fields

datatype hash_method = Hash_DomainEntity | Hash_None

definition dataclass_eq :: "bool \<Rightarrow> eq_method \<Rightarrow> eq_method" where
  "dataclass_eq in_body current = (if in_body then current else Eq_fields)"

definition dataclass_hash :: "bool \<Rightarrow> hash_method \<Rightarrow> hash_method" where
  "dataclass_hash in_body current = (if in_body then current else Hash_None)"

definition DomainEntity_eq_method :: eq_method where
  "DomainEntity_eq_method = dataclass_eq True Eq_DomainEntity"

definition DomainEntity_hash_method :: hash_method where
  "DomainEntity_hash_method = dataclass_hash True Hash_DomainEntity"

definition User_eq_method :: eq_method where
  "User_eq_method = dataclass_eq False DomainEntity_eq_method"

definition User_hash_method :: hash_method where
  "User_hash_method = dataclass_hash False DomainEntity_hash_method"

definition field_tuple ::
  "User \<Rightarrow> (nat option \<times> nat option \<times> nat) \<times> (string \<times> string \<times> string option \<times> string option)
     \<times> (bool \<times> bool \<times> bool \<times> bool) \<times> string option" where
  "field_tuple u =
     ((id' u, created_at u, updated_at u),
      (username u, email u, first_name u, last_name u),
      (is_active u, is_staff u, is_admin u, is_superuser u),
      password u)"

text \<open>\<open>a == b\<close> and \<open>hash(a)\<close> for instances of \<open>User\<close>; \<open>h\<close> is the built-in \<open>hash\<close>.\<close>

definition User_eq :: "User \<Rightarrow> User \<Rightarrow> bool" where
  "User_eq a b =
     (case User_eq_method of
        Eq_DomainEntity \<Rightarrow> id' a = id' b
      | Eq_fields \<Rightarrow> field_tuple a = field_tuple b)"

definition User_hash :: "(nat option \<Rightarrow> int) \<Rightarrow> User \<Rightarrow> error + int" where
  "User_hash h a =
     (case User_hash_method of
        Hash_DomainEntity \<Rightarrow> Inr (h (id' a))
      | Hash_None \<Rightarrow> Inl (TypeError ''unhashable type: User''))"

section \<open>The users table and the Django model\<close>

text \<open>
  Modelled from the spec: src/users/models.py (the Django model \<open>User\<close>) is not among the
  sources. A row has the columns the repository reads and writes; section 3 of the spec
  lists no phone number, and a test among the sources (api/tests/pagination) creates
  users through \<open>CreateUserUseCase\<close> and hence through \<open>save\<close>, which would raise otherwise,
  so \<open>hasattr(django_user, "phone_number")\<close> is false. \<open>dj_id\<close> is \<open>None\<close> until the row is
  saved. The stored credential is abstract: \<open>set_password\<close> stores the hash of a
  password, or an unusable credential for \<open>None\<close>, and \<open>check_password\<close> accepts exactly
  the password that was hashed. \<open>full_clean\<close> enforces the unique constraints of section 6
  (username and email) against the other rows.
\<close>

datatype credential = Hashed string | Unusable

record DjangoUser =
  dj_id :: "nat option"
  dj_username :: string
  dj_email :: string
  dj_first_name :: string
  dj_last_name :: string
  dj_is_active :: bool
  dj_is_staff :: bool
  dj_is_admin :: bool
  dj_is_superuser :: bool
  dj_password :: credential
  dj_date_joined :: "nat option"

definition DjangoUser_has_phone_number :: bool where
  "DjangoUser_has_phone_number = False"

definition set_password :: "string option \<Rightarrow> credential" where
  "set_password raw = (case raw of None \<Rightarrow> Unusable | Some p \<Rightarrow> Hashed p)"

definition check_password :: "DjangoUser \<Rightarrow> string \<Rightarrow> bool" where
  "check_password r raw = (dj_password r = Hashed raw)"

definition full_clean :: "DjangoUser list \<Rightarrow> DjangoUser \<Rightarrow> error option" where
  "full_clean rs r =
     (if list_ex (\<lambda>x. dj_id x \<noteq> dj_id r \<and> dj_username x = dj_username r) rs
      then Some (DjangoValidationError ''username'')
      else if list_ex (\<lambda>x. dj_id x \<noteq> dj_id r \<and> dj_email x = dj_email r) rs
      then Some (DjangoValidationError ''email'')
      else None)"

text \<open>\<open>DjangoUser.objects.get(...)\<close>: the one row that satisfies the lookup.\<close>

definition objects_get :: "(DjangoUser \<Rightarrow> bool) \<Rightarrow> DjangoUser list \<Rightarrow> error + DjangoUser" where
  "objects_get P rs =
     (case filter P rs of
        [] \<Rightarrow> Inl DoesNotExist
      | [r] \<Rightarrow> Inr r
      | r # r' # rest \<Rightarrow> Inl MultipleObjectsReturned)"

text \<open>\<open>django_user.save()\<close>: a row without an id is inserted under a fresh id, a row with
  an id replaces the stored row of that id.\<close>

definition new_id :: "DjangoUser list \<Rightarrow> nat" where
  "new_id rs = Suc (fold max (map (\<lambda>r. case dj_id r of None \<Rightarrow> 0 | Some i \<Rightarrow> i) rs) 0)"

definition model_save :: "DjangoUser list \<Rightarrow> DjangoUser \<Rightarrow> DjangoUser list \<times> DjangoUser" where
  "model_save rs r =
     (case dj_id r of
        None \<Rightarrow> (let r' = r\<lparr>dj_id := Some (new_id rs)\<rparr> in (rs @ [r'], r'))
      | Some i \<Rightarrow>
          (if list_ex (\<lambda>x. dj_id x = Some i) rs
           then (map (\<lambda>x. if dj_id x = Some i then r else x) rs, r)
           else (rs @ [r], r)))"

section \<open>The repository (infrastructure/persistence/user\_repository.py)\<close>

text \<open>
  The functions take the table and the current clock reading \<open>t\<close> (the value of
  \<open>datetime.utcnow()\<close> for the default of \<open>updated_at\<close>). \<open>_to_domain\<close> builds the entity
  with the constructor, so \<open>User_post_init\<close> runs on every row that is read; it passes no
  password, so the entity's \<open>password\<close> is the default \<open>None\<close>.
\<close>

definition to_domain :: "nat \<Rightarrow> DjangoUser \<Rightarrow> error + User" where
  "to_domain t r =
     User_post_init
       \<lparr>id' = dj_id r, created_at = dj_date_joined r, updated_at = t,
        username = dj_username r, email = dj_email r,
        first_name = Some (dj_first_name r), last_name = Some (dj_last_name r),
        is_active = dj_is_active r, is_staff = dj_is_staff r, is_admin = dj_is_admin r,
        is_superuser = dj_is_superuser r, password = None, phone_number = Absent\<rparr>"

text \<open>\<open>x or ""\<close> and the truth value of an id (\<open>if domain_user.id:\<close>).\<close>

definition or_empty :: "string option \<Rightarrow> string" where
  "or_empty x = (case x of None \<Rightarrow> [] | Some s \<Rightarrow> s)"

definition truthy_id :: "nat option \<Rightarrow> bool" where
  "truthy_id x = (case x of None \<Rightarrow> False | Some i \<Rightarrow> i \<noteq> 0)"

definition copy_phone_number :: "User \<Rightarrow> DjangoUser \<Rightarrow> error + DjangoUser" where
  "copy_phone_number u r =
     (if DjangoUser_has_phone_number
      then (case phone_number u of Absent \<Rightarrow> Inl (AttributeError ''phone_number'') | Attr v \<Rightarrow> Inr r)
      else Inr r)"

definition to_django :: "DjangoUser list \<Rightarrow> nat \<Rightarrow> User \<Rightarrow> error + DjangoUser" where
  "to_django rs t u =
     (if truthy_id (id' u)
      then (case objects_get (\<lambda>r. dj_id r = id' u) rs of
              Inl e \<Rightarrow> Inl e
            | Inr r \<Rightarrow>
                (case copy_phone_number u
                        (r\<lparr>dj_username := username u, dj_email := email u,
                           dj_first_name := or_empty (first_name u),
                           dj_last_name := or_empty (last_name u)\<rparr>) of
                   Inl e \<Rightarrow> Inl e
                 | Inr r' \<Rightarrow>
                     Inr (r'\<lparr>dj_is_active := is_active u, dj_is_staff := is_staff u,
                              dj_is_admin := is_admin u, dj_is_superuser := is_superuser u\<rparr>)))
      else copy_phone_number u
             \<lparr>dj_id = None, dj_username = username u, dj_email = email u,
              dj_first_name = or_empty (first_name u), dj_last_name = or_empty (last_name u),
              dj_is_active = is_active u, dj_is_staff = is_staff u, dj_is_admin = is_admin u,
              dj_is_superuser = is_superuser u, dj_password = Unusable,
              dj_date_joined = Some t\<rparr>)"

definition get_by_id :: "DjangoUser list \<Rightarrow> nat \<Rightarrow> nat \<Rightarrow> error + User option" where
  "get_by_id rs t entity_id =
     (case objects_get (\<lambda>r. dj_id r = Some entity_id) rs of
        Inl e \<Rightarrow> (if e = DoesNotExist then Inr None else Inl e)
      | Inr r \<Rightarrow> (case to_domain t r of Inl e \<Rightarrow> Inl e | Inr u \<Rightarrow> Inr (Some u)))"

definition get_by_username :: "DjangoUser list \<Rightarrow> nat \<Rightarrow> string \<Rightarrow> error + User option" where
  "get_by_username rs t name =
     (case objects_get (\<lambda>r. dj_username r = name) rs of
        Inl e \<Rightarrow> (if e = DoesNotExist then Inr None else Inl e)
      | Inr r \<Rightarrow> (case to_domain t r of Inl e \<Rightarrow> Inl e | Inr u \<Rightarrow> Inr (Some u)))"

definition get_by_email :: "DjangoUser list \<Rightarrow> nat \<Rightarrow> string \<Rightarrow> error + User option" where
  "get_by_email rs t mail =
     (case objects_get (\<lambda>r. dj_email r = lower mail) rs of
        Inl e \<Rightarrow> (if e = DoesNotExist then Inr None else Inl e)
      | Inr r \<Rightarrow> (case to_domain t r of Inl e \<Rightarrow> Inl e | Inr u \<Rightarrow> Inr (Some u)))"

text \<open>
  \<open>save\<close>: \<open>hasattr(entity, "password")\<close> holds for every \<open>User\<close> (\<open>password\<close> is a field with
  a default), so \<open>set_password(entity.password)\<close> always runs and replaces whatever
  credential \<open>_to_django\<close> left in the row (for a new row one that no password matches).
  The result is the table
  after the call and what \<open>save\<close> returns or raises; the row is written before
  \<open>_to_domain\<close> rebuilds the entity.
\<close>

definition save :: "DjangoUser list \<Rightarrow> nat \<Rightarrow> User \<Rightarrow> (error + User) \<times> DjangoUser list" where
  "save rs t entity =
     (case to_django rs t entity of
        Inl e \<Rightarrow> (Inl e, rs)
      | Inr r \<Rightarrow>
          (let r' = r\<lparr>dj_password := set_password (password entity)\<rparr> in
           case full_clean rs r' of
             Some e \<Rightarrow> (Inl e, rs)
           | None \<Rightarrow> (case model_save rs r' of (rs', stored) \<Rightarrow> (to_domain t stored, rs'))))"

section \<open>Domain events and the publisher (domain/user/events.py, infrastructure/events/publisher.py)\<close>

text \<open>
  An event carries \<open>aggregate_id\<close> first, then its own fields; \<open>event_id\<close> and
  \<open>occurred_at\<close> (a random UUID and a clock reading) are left out. \<open>type_of\<close> is
  \<open>type(event)\<close>, the key of \<open>_subscribers_by_type\<close>.
\<close>

datatype DomainEvent =
    UserCreatedEvent "nat option" string string
  | UserUpdatedEvent "nat option" "nat option" "string list"
  | UserActivatedEvent "nat option" "nat option"
  | UserDeactivatedEvent "nat option" "nat option"
  | PasswordChangedEvent "nat option" "nat option"

datatype event_type = UserCreated | UserUpdated | UserActivated | UserDeactivated | PasswordChanged

primrec type_of :: "DomainEvent \<Rightarrow> event_type" where
  "type_of (UserCreatedEvent a u e) = UserCreated"
| "type_of (UserUpdatedEvent a i fs) = UserUpdated"
| "type_of (UserActivatedEvent a i) = UserActivated"
| "type_of (UserDeactivatedEvent a i) = UserDeactivated"
| "type_of (PasswordChangedEvent a i) = PasswordChanged"

text \<open>
  A subscriber is any callable: \<open>handler_call h ev\<close> is what calling it on \<open>ev\<close> does,
  \<open>None\<close> when it returns and \<open>Some e\<close> when it raises \<open>e\<close>; \<open>handler_name\<close> is its
  \<open>__name__\<close>, which a function has and a callable object need not have; \<open>handler_key\<close>
  tells the registered callables apart in the record of calls. A handler that calls
  back into the publisher is outside this model. What a call of \<open>publish\<close> does besides
  changing the publisher is a list of effects: the calls of handlers and the records
  written by \<open>logger.error\<close>.
\<close>

record handler =
  handler_key :: nat
  handler_name :: "string option"
  handler_call :: "DomainEvent \<Rightarrow> error option"

datatype effect = Called nat DomainEvent | Logged event_type string error

record InMemoryEventPublisher =
  events :: "DomainEvent list"
  subscribers_by_type :: "event_type \<Rightarrow> handler list option"
  all_subscribers :: "handler list"

definition InMemoryEventPublisher_init :: InMemoryEventPublisher where
  "InMemoryEventPublisher_init =
     \<lparr>events = [], subscribers_by_type = (\<lambda>t. None), all_subscribers = []\<rparr>"

text \<open>\<open>format_exception e\<close> is the \<open>{e}\<close> of the log message, that is \<open>str(e)\<close>.\<close>

definition format_exception :: "error \<Rightarrow> error + string" where
  "format_exception e =
     (if e = UnprintableError then Inl (TypeError ''__str__ returned non-string'')
      else Inr (message_of e))"

text \<open>\<open>_notify_subscriber\<close>: \<open>except Exception\<close> catches the classes that derive from
  \<open>Exception\<close>; inside the handler the message of \<open>logger.error\<close> is built first, reading
  \<open>subscriber.__name__\<close> and then formatting the exception, and what either raises leaves
  the function.\<close>

definition notify_subscriber :: "handler \<Rightarrow> DomainEvent \<Rightarrow> (error + unit) \<times> effect list" where
  "notify_subscriber h ev =
     (case handler_call h ev of
        None \<Rightarrow> (Inr (), [Called (handler_key h) ev])
      | Some e \<Rightarrow>
          (if is_Exception e
           then (case handler_name h of
                   None \<Rightarrow> (Inl (AttributeError ''__name__''), [Called (handler_key h) ev])
                 | Some n \<Rightarrow>
                     (case format_exception e of
                        Inl e' \<Rightarrow> (Inl e', [Called (handler_key h) ev])
                      | Inr m \<Rightarrow> (Inr (), [Called (handler_key h) ev, Logged (type_of ev) n e])))
           else (Inl e, [Called (handler_key h) ev])))"

fun notify_each :: "handler list \<Rightarrow> DomainEvent \<Rightarrow> (error + unit) \<times> effect list" where
  "notify_each [] ev = (Inr (), [])"
| "notify_each (h # hs) ev =
     (case notify_subscriber h ev of
        (Inl e, fx) \<Rightarrow> (Inl e, fx)
      | (Inr u, fx) \<Rightarrow> (case notify_each hs ev of (r, fx') \<Rightarrow> (r, fx @ fx')))"

definition publish ::
  "InMemoryEventPublisher \<Rightarrow> DomainEvent \<Rightarrow> (error + unit) \<times> InMemoryEventPublisher \<times> effect list" where
  "publish p ev =
     (let p' = p\<lparr>events := events p @ [ev]\<rparr> in
      case (case subscribers_by_type p (type_of ev) of
              None \<Rightarrow> (Inr (), [])
            | Some hs \<Rightarrow> notify_each hs ev) of
        (Inl e, fx) \<Rightarrow> (Inl e, p', fx)
      | (Inr u, fx) \<Rightarrow> (case notify_each (all_subscribers p) ev of (r, fx') \<Rightarrow> (r, p', fx @ fx')))"

definition subscribe ::
  "InMemoryEventPublisher \<Rightarrow> handler \<Rightarrow> event_type option \<Rightarrow> InMemoryEventPublisher" where
  "subscribe p h event_type =
     (case event_type of
        Some t \<Rightarrow>
          p\<lparr>subscribers_by_type :=
              (subscribers_by_type p)
                (t := Some ((case subscribers_by_type p t of None \<Rightarrow> [] | Some hs \<Rightarrow> hs) @ [h]))\<rparr>
      | None \<Rightarrow> p\<lparr>all_subscribers := all_subscribers p @ [h]\<rparr>)"

definition get_events :: "InMemoryEventPublisher \<Rightarrow> DomainEvent list" where
  "get_events p = events p"

definition clear_events :: "InMemoryEventPublisher \<Rightarrow> InMemoryEventPublisher" where
  "clear_events p = p\<lparr>events := []\<rparr>"

text \<open>The handlers a call of \<open>publish\<close> visits, in the order of the two loops.\<close>

definition handlers_for :: "InMemoryEventPublisher \<Rightarrow> DomainEvent \<Rightarrow> handler list" where
  "handlers_for p ev =
     (case subscribers_by_type p (type_of ev) of None \<Rightarrow> [] | Some hs \<Rightarrow> hs) @ all_subscribers p"

primrec calls_of :: "effect list \<Rightarrow> nat list" where
  "calls_of [] = []"
| "calls_of (x # xs) = (case x of Called k ev \<Rightarrow> k # calls_of xs | Logged t n e \<Rightarrow> calls_of xs)"

text \<open>A handler whose failure \<open>_notify_subscriber\<close> isolates: it returns, or it raises an
  exception that derives from \<open>Exception\<close> and can be formatted, and it has a \<open>__name__\<close>.\<close>

definition isolated :: "DomainEvent \<Rightarrow> handler \<Rightarrow> bool" where
  "isolated ev h =
     (case handler_call h ev of
        None \<Rightarrow> True
      | Some e \<Rightarrow> is_Exception e \<and> handler_name h \<noteq> None \<and> e \<noteq> UnprintableError)"

text \<open>The handlers of infrastructure/events/handlers.py print a line and return.\<close>

definition handle_user_created :: handler where
  "handle_user_created =
     \<lparr>handler_key = 1, handler_name = Some ''handle_user_created'', handler_call = (\<lambda>ev. None)\<rparr>"

definition handle_user_updated :: handler where
  "handle_user_updated =
     \<lparr>handler_key = 2, handler_name = Some ''handle_user_updated'', handler_call = (\<lambda>ev. None)\<rparr>"

definition handle_password_changed :: handler where
  "handle_password_changed =
     \<lparr>handler_key = 3, handler_name = Some ''handle_password_changed'', handler_call = (\<lambda>ev. None)\<rparr>"

section \<open>The state the use cases work on\<close>

text \<open>
  \<open>rows\<close> is the users table, \<open>clock\<close> the current reading of the clock,
  \<open>event_publisher\<close> the publisher the use cases were built with (\<open>None\<close> when they
  were built without one), and \<open>effects\<close> the handler calls and log records so far.
\<close>

record world =
  rows :: "DjangoUser list"
  clock :: nat
  event_publisher :: "InMemoryEventPublisher option"
  effects :: "effect list"

definition publish_event :: "world \<Rightarrow> DomainEvent \<Rightarrow> (error + unit) \<times> world" where
  "publish_event w ev =
     (case event_publisher w of
        None \<Rightarrow> (Inr (), w)
      | Some p \<Rightarrow>
          (case publish p ev of
             (r, p', fx) \<Rightarrow> (r, w\<lparr>event_publisher := Some p', effects := effects w @ fx\<rparr>)))"

text \<open>The events published so far (\<open>get_events\<close> of the publisher).\<close>

definition published :: "world \<Rightarrow> DomainEvent list" where
  "published w = (case event_publisher w of None \<Rightarrow> [] | Some p \<Rightarrow> get_events p)"

text \<open>The composition root (infrastructure/dependency\_injection/container.py): one
  publisher with the three handlers subscribed by event type.\<close>

definition ServiceContainer_publisher :: InMemoryEventPublisher where
  "ServiceContainer_publisher =
     subscribe
       (subscribe
          (subscribe InMemoryEventPublisher_init handle_user_created (Some UserCreated))
          handle_user_updated (Some UserUpdated))
       handle_password_changed (Some PasswordChanged)"

definition ServiceContainer_init :: "DjangoUser list \<Rightarrow> nat \<Rightarrow> world" where
  "ServiceContainer_init rs t =
     \<lparr>rows = rs, clock = t, event_publisher = Some ServiceContainer_publisher, effects = []\<rparr>"

section \<open>Data transfer objects (application/shared/dtos.py)\<close>

record UserDTO =
  dto_id :: "nat option"
  dto_username :: string
  dto_email :: string
  dto_first_name :: "string option"
  dto_last_name :: "string option"
  dto_is_active :: bool
  dto_is_staff :: bool
  dto_is_admin :: bool
  dto_is_superuser :: bool

record UserCreateDTO =
  create_username :: string
  create_email :: string
  create_password :: string
  create_first_name :: "string option"
  create_last_name :: "string option"

text \<open>
  The object \<open>UpdateUserUseCase.execute\<close> receives as \<open>user_data\<close>. The function reads four
  attributes of it; the dataclass \<open>UserUpdateDTO\<close> declares the first three, so an
  instance built by its constructor has no \<open>phone_number\<close>.
\<close>

record update_data =
  upd_first_name :: "string option"
  upd_last_name :: "string option"
  upd_email :: "string option"
  upd_phone_number :: "string option attribute"

definition UserUpdateDTO :: "string option \<Rightarrow> string option \<Rightarrow> string option \<Rightarrow> update_data" where
  "UserUpdateDTO fn ln em =
     \<lparr>upd_first_name = fn, upd_last_name = ln, upd_email = em, upd_phone_number = Absent\<rparr>"


text \<open>\<open>_to_dto\<close> / \<open>_user_to_dto\<close>, the same in every use case.\<close>

definition to_dto :: "User \<Rightarrow> UserDTO" where
  "to_dto u =
     \<lparr>dto_id = id' u, dto_username = username u, dto_email = email u,
      dto_first_name = first_name u, dto_last_name = last_name u,
      dto_is_active = is_active u, dto_is_staff = is_staff u, dto_is_admin = is_admin u,
      dto_is_superuser = is_superuser u\<rparr>"

section \<open>The domain services (domain/user/services.py, domain/authentication/services.py)\<close>

fun is_ValueError :: "error \<Rightarrow> bool" where
  "is_ValueError (ValueError m) = True"
| "is_ValueError e = False"

definition is_email_unique :: "DjangoUser list \<Rightarrow> nat \<Rightarrow> string \<Rightarrow> nat option \<Rightarrow> error + bool" where
  "is_email_unique rs t mail exclude_user_id =
     (case get_by_email rs t mail of
        Inl e \<Rightarrow> Inl e
      | Inr None \<Rightarrow> Inr True
      | Inr (Some existing_user) \<Rightarrow>
          Inr (truthy_id exclude_user_id \<and> id' existing_user = exclude_user_id))"

definition is_username_unique :: "DjangoUser list \<Rightarrow> nat \<Rightarrow> string \<Rightarrow> nat option \<Rightarrow> error + bool" where
  "is_username_unique rs t name exclude_user_id =
     (case get_by_username rs t name of
        Inl e \<Rightarrow> Inl e
      | Inr None \<Rightarrow> Inr True
      | Inr (Some existing_user) \<Rightarrow>
          Inr (truthy_id exclude_user_id \<and> id' existing_user = exclude_user_id))"

text \<open>\<open>validate_user_creation\<close> returns nothing: the result is the exception it raises, if any.\<close>

definition validate_user_creation :: "DjangoUser list \<Rightarrow> nat \<Rightarrow> string \<Rightarrow> string \<Rightarrow> error option" where
  "validate_user_creation rs t name mail =
     (case Username_post_init name of
        Inl e \<Rightarrow>
          (if is_ValueError e
           then Some (BusinessRuleViolationError (''Invalid username: '' @ message_of e) [])
           else Some e)
      | Inr un \<Rightarrow>
          (case Email_post_init mail of
             Inl e \<Rightarrow>
               (if is_ValueError e
                then Some (BusinessRuleViolationError (''Invalid email: '' @ message_of e) [])
                else Some e)
           | Inr em \<Rightarrow>
               (case is_username_unique rs t name None of
                  Inl e \<Rightarrow> Some e
                | Inr False \<Rightarrow>
                    Some (BusinessRuleViolationError
                            (''Username '' @ [CHR 0x27] @ name @ [CHR 0x27] @ '' is already taken'') [])
                | Inr True \<Rightarrow>
                    (case is_email_unique rs t mail None of
                       Inl e \<Rightarrow> Some e
                     | Inr False \<Rightarrow>
                         Some (BusinessRuleViolationError
                                 (''Email '' @ [CHR 0x27] @ mail @ [CHR 0x27] @ '' is already taken'') [])
                     | Inr True \<Rightarrow> None))))"


section \<open>The use cases (application/user/use\_cases.py, application/authentication/use\_cases.py)\<close>

text \<open>\<open>str(n)\<close> for the ids inside messages.\<close>

fun str_nat :: "nat \<Rightarrow> string" where
  "str_nat n = (if n < 10 then [char_of (48 + n)] else str_nat (n div 10) @ [char_of (48 + n mod 10)])"

declare str_nat.simps [simp del]

definition not_found :: "nat \<Rightarrow> error" where
  "not_found user_id = NotFoundError (''User with ID '' @ str_nat user_id @ '' not found'') []"

subsection \<open>CreateUserUseCase\<close>

text \<open>The \<open>except BusinessRuleViolationError\<close> clause of \<open>execute\<close>; any other exception
  passes through.\<close>

fun translate_violation :: "error \<Rightarrow> error" where
  "translate_violation (BusinessRuleViolationError m d) =
     (if contains ''already taken'' m
      then ConflictError m [(''field'', if contains ''Username'' m then ''username'' else ''email'')]
      else ValidationError m d)"
| "translate_violation e = e"

definition CreateUserUseCase_execute :: "world \<Rightarrow> UserCreateDTO \<Rightarrow> (error + UserDTO) \<times> world" where
  "CreateUserUseCase_execute w user_data =
     (case validate_user_creation (rows w) (clock w) (create_username user_data) (create_email user_data) of
        Some e \<Rightarrow> (Inl (translate_violation e), w)
      | None \<Rightarrow>
          (case User_post_init
                  \<lparr>id' = None, created_at = Some (clock w), updated_at = clock w,
                   username = create_username user_data, email = create_email user_data,
                   first_name = create_first_name user_data, last_name = create_last_name user_data,
                   is_active = True, is_staff = False, is_admin = False, is_superuser = False,
                   password = Some (create_password user_data), phone_number = Absent\<rparr> of
             Inl e \<Rightarrow> (Inl e, w)
           | Inr user \<Rightarrow>
               (case save (rows w) (clock w) user of
                  (Inl e, rs) \<Rightarrow> (Inl e, w\<lparr>rows := rs\<rparr>)
                | (Inr saved_user, rs) \<Rightarrow>
                    (case publish_event (w\<lparr>rows := rs\<rparr>)
                            (UserCreatedEvent (id' saved_user) (username saved_user) (email saved_user)) of
                       (Inl e, w') \<Rightarrow> (Inl e, w')
                     | (Inr u, w') \<Rightarrow> (Inr (to_dto saved_user), w')))))"

subsection \<open>UpdateUserUseCase\<close>

text \<open>Lines 110 to 113: the uniqueness check, made when an email is supplied, is not
  empty and differs from the current one. The result is the exception raised, if any.\<close>

definition check_email_change :: "DjangoUser list \<Rightarrow> nat \<Rightarrow> nat \<Rightarrow> User \<Rightarrow> update_data \<Rightarrow> error option" where
  "check_email_change rs t user_id user user_data =
     (case upd_email user_data of
        None \<Rightarrow> None
      | Some m \<Rightarrow>
          (if m = [] then None
           else if m = email user then None
           else (case is_email_unique rs t m (Some user_id) of
                   Inl e \<Rightarrow> Some e
                 | Inr True \<Rightarrow> None
                 | Inr False \<Rightarrow>
                     Some (ConflictError (''Email '' @ [CHR 0x27] @ m @ [CHR 0x27] @ '' is already taken'')
                             [(''field'', ''email'')]))))"

text \<open>Lines 115 to 125: each of the three fields that is not \<open>None\<close> is assigned and its
  name appended, whatever the entity held before. The result is the entity and the list
  \<open>updated_fields\<close> as they stand when line 126 is reached.\<close>

definition assign_fields :: "User \<Rightarrow> update_data \<Rightarrow> User \<times> string list" where
  "assign_fields user user_data =
     (case (case upd_first_name user_data of
              None \<Rightarrow> (user, [])
            | Some v \<Rightarrow> (user\<lparr>first_name := Some v\<rparr>, [''first_name''])) of
        (u1, f1) \<Rightarrow>
          (case (case upd_last_name user_data of
                   None \<Rightarrow> (u1, f1)
                 | Some v \<Rightarrow> (u1\<lparr>last_name := Some v\<rparr>, f1 @ [''last_name''])) of
             (u2, f2) \<Rightarrow>
               (case upd_email user_data of
                  None \<Rightarrow> (u2, f2)
                | Some v \<Rightarrow> (u2\<lparr>email := strip (lower v)\<rparr>, f2 @ [''email'']))))"

text \<open>Lines 115 to 128: the assignments above, then the read of \<open>user_data.phone_number\<close>
  at line 126, which raises when the object has no such attribute.\<close>

definition update_fields :: "User \<Rightarrow> update_data \<Rightarrow> error + User \<times> string list" where
  "update_fields user user_data =
     (case assign_fields user user_data of
        (u3, f3) \<Rightarrow>
          (case upd_phone_number user_data of
             Absent \<Rightarrow> Inl (AttributeError ''phone_number'')
           | Attr None \<Rightarrow> Inr (u3, f3)
           | Attr (Some v) \<Rightarrow> Inr (u3\<lparr>phone_number := Attr v\<rparr>, f3 @ [''phone_number''])))"

definition UpdateUserUseCase_execute :: "world \<Rightarrow> nat \<Rightarrow> update_data \<Rightarrow> (error + UserDTO) \<times> world" where
  "UpdateUserUseCase_execute w user_id user_data =
     (case get_by_id (rows w) (clock w) user_id of
        Inl e \<Rightarrow> (Inl e, w)
      | Inr None \<Rightarrow> (Inl (not_found user_id), w)
      | Inr (Some user) \<Rightarrow>
          (case check_email_change (rows w) (clock w) user_id user user_data of
             Some e \<Rightarrow> (Inl e, w)
           | None \<Rightarrow>
               (case update_fields user user_data of
                  Inl e \<Rightarrow> (Inl e, w)
                | Inr (user', updated_fields) \<Rightarrow>
                    (case save (rows w) (clock w) user' of
                       (Inl e, rs) \<Rightarrow> (Inl e, w\<lparr>rows := rs\<rparr>)
                     | (Inr saved_user, rs) \<Rightarrow>
                         (if updated_fields = [] then (Inr (to_dto saved_user), w\<lparr>rows := rs\<rparr>)
                          else (case publish_event (w\<lparr>rows := rs\<rparr>)
                                       (UserUpdatedEvent (id' saved_user) (id' saved_user) updated_fields) of
                                  (Inl e, w') \<Rightarrow> (Inl e, w')
                                | (Inr u, w') \<Rightarrow> (Inr (to_dto saved_user), w')))))))"

subsection \<open>GetUserUseCase\<close>

definition GetUserUseCase_execute :: "world \<Rightarrow> nat \<Rightarrow> error + UserDTO" where
  "GetUserUseCase_execute w user_id =
     (case get_by_id (rows w) (clock w) user_id of
        Inl e \<Rightarrow> Inl e
      | Inr None \<Rightarrow> Inl (not_found user_id)
      | Inr (Some user) \<Rightarrow> Inr (to_dto user))"

subsection \<open>ChangePasswordUseCase\<close>

text \<open>
  Line 218 calls \<open>user.check_password(old_password)\<close> on the entity \<open>get_by_id\<close> returned.
  The classes \<open>User\<close> and \<open>DomainEntity\<close> define \<open>__post_init__\<close>, \<open>__eq__\<close>, \<open>__hash__\<close>,
  \<open>activate\<close>, \<open>deactivate\<close>, \<open>promote_to_admin\<close> and \<open>demote_from_admin\<close>; the lookup of
  \<open>check_password\<close> raises \<open>AttributeError\<close>. \<open>ChangePasswordUseCase_run\<close> is the body of
  \<open>execute\<close> over what that call does, \<open>User_check_password\<close> is what it does on the
  entity class of the source. \<open>policy\<close> is \<open>password_validation.validate_password\<close> (true
  when it returns). \<open>new_password\<close> is given to the validator only: the entity that
  is saved is the one that was loaded.
\<close>

definition User_check_password :: "User \<Rightarrow> string \<Rightarrow> error + bool" where
  "User_check_password user raw = Inl (AttributeError ''check_password'')"

definition ChangePasswordUseCase_run ::
  "(User \<Rightarrow> string \<Rightarrow> error + bool) \<Rightarrow> (string \<Rightarrow> DjangoUser \<Rightarrow> bool) \<Rightarrow>
     world \<Rightarrow> nat \<Rightarrow> string \<Rightarrow> string \<Rightarrow> (error + unit) \<times> world" where
  "ChangePasswordUseCase_run check policy w user_id old_password new_password =
     (case get_by_id (rows w) (clock w) user_id of
        Inl e \<Rightarrow> (Inl e, w)
      | Inr None \<Rightarrow> (Inl (not_found user_id), w)
      | Inr (Some user) \<Rightarrow>
          (case check user old_password of
             Inl e \<Rightarrow> (Inl e, w)
           | Inr False \<Rightarrow>
               (Inl (DRFValidationError
                       ''Your old password was entered incorrectly. Please enter it again.''), w)
           | Inr True \<Rightarrow>
               (case objects_get (\<lambda>r. dj_id r = id' user) (rows w) of
                  Inl e \<Rightarrow> (Inl e, w)
                | Inr django_user \<Rightarrow>
                    (if \<not> policy new_password django_user
                     then (Inl (DjangoValidationError ''password''), w)
                     else (case save (rows w) (clock w) user of
                             (Inl e, rs) \<Rightarrow> (Inl e, w\<lparr>rows := rs\<rparr>)
                           | (Inr saved_user, rs) \<Rightarrow>
                               publish_event (w\<lparr>rows := rs\<rparr>)
                                 (PasswordChangedEvent (id' user) (id' user)))))))"

definition ChangePasswordUseCase_execute ::
  "(string \<Rightarrow> DjangoUser \<Rightarrow> bool) \<Rightarrow> world \<Rightarrow> nat \<Rightarrow> string \<Rightarrow> string \<Rightarrow> (error + unit) \<times> world" where
  "ChangePasswordUseCase_execute policy w user_id old_password new_password =
     ChangePasswordUseCase_run User_check_password policy w user_id old_password new_password"

subsection \<open>AuthenticateUserUseCase\<close>


section \<open>Example data\<close>

text \<open>
  A stored user with the password \<open>secret\<close>, the entity \<open>get_by_id\<close> builds from that row
  at clock reading 7, a password validator that accepts every password, and two
  registrations whose emails differ by case only.
\<close>

definition alice_row :: DjangoUser where
  "alice_row =
     \<lparr>dj_id = Some 1, dj_username = ''alice'', dj_email = ''alice@example.com'',
      dj_first_name = ''Alice'', dj_last_name = ''Lee'', dj_is_active = True,
      dj_is_staff = False, dj_is_admin = False, dj_is_superuser = False,
      dj_password = Hashed ''secret'', dj_date_joined = Some 5\<rparr>"

definition alice :: User where
  "alice =
     \<lparr>id' = Some 1, created_at = Some 5, updated_at = 7, username = ''alice'',
      email = ''alice@example.com'', first_name = Some ''Alice'', last_name = Some ''Lee'',
      is_active = True, is_staff = False, is_admin = False, is_superuser = False,
      password = None, phone_number = Absent\<rparr>"

definition accept_all :: "string \<Rightarrow> DjangoUser \<Rightarrow> bool" where
  "accept_all raw r = True"

definition first_registration :: UserCreateDTO where
  "first_registration =
     \<lparr>create_username = ''ursula'', create_email = ''username@x.com'', create_password = ''pw-1'',
      create_first_name = None, create_last_name = None\<rparr>"

definition second_registration :: UserCreateDTO where
  "second_registration =
     \<lparr>create_username = ''bob'', create_email = ''Username@x.com'', create_password = ''pw-2'',
      create_first_name = None, create_last_name = None\<rparr>"

text \<open>
  Three subscribers as in the test scenario of the spec: two for \<open>UserCreated\<close>, the
  first of which is \<open>h\<close>, and one for all events. \<open>raising_handler\<close> is a function that
  raises \<open>e\<close>; \<open>raising_callable\<close> is a callable object that raises \<open>e\<close> (an instance of a
  class with \<open>__call__\<close>, or a \<open>functools.partial\<close>), which has no \<open>__name__\<close>.
\<close>

definition raising_handler :: "nat \<Rightarrow> error \<Rightarrow> handler" where
  "raising_handler k e =
     \<lparr>handler_key = k, handler_name = Some ''on_event'', handler_call = (\<lambda>ev. Some e)\<rparr>"

definition raising_callable :: "nat \<Rightarrow> error \<Rightarrow> handler" where
  "raising_callable k e =
     \<lparr>handler_key = k, handler_name = None, handler_call = (\<lambda>ev. Some e)\<rparr>"

definition returning_handler :: "nat \<Rightarrow> handler" where
  "returning_handler k =
     \<lparr>handler_key = k, handler_name = Some ''on_event'', handler_call = (\<lambda>ev. None)\<rparr>"

definition three_subscribers :: "handler \<Rightarrow> InMemoryEventPublisher" where
  "three_subscribers h =
     subscribe
       (subscribe
          (subscribe InMemoryEventPublisher_init h (Some UserCreated))
          (returning_handler 2) (Some UserCreated))
       (returning_handler 3) None"

definition alice_created :: DomainEvent where
  "alice_created = UserCreatedEvent (Some 1) ''alice'' ''alice@example.com''"




definition row_view :: "DjangoUser \<Rightarrow> UserDTO" where
  "row_view r =
     \<lparr>dto_id = dj_id r, dto_username = dj_username r, dto_email = strip (lower (dj_email r)),
      dto_first_name = Some (dj_first_name r), dto_last_name = Some (dj_last_name r),
      dto_is_active = dj_is_active r, dto_is_staff = dj_is_staff r, dto_is_admin = dj_is_admin r,
      dto_is_superuser = dj_is_superuser r\<rparr>"




text \<open>
  What the constructor of \<open>User\<close> guarantees of a username, and a stored user whose
  email the validator of Django accepts and the pattern of \<open>Email\<close> does not.
\<close>

definition valid_username :: "string \<Rightarrow> bool" where
  "valid_username s = (s \<noteq> [] \<and> re_match username_pattern s)"

definition ampersand_row :: DjangoUser where
  "ampersand_row =
     \<lparr>dj_id = Some 4, dj_username = ''randd'', dj_email = ''r&d@example.com'',
      dj_first_name = ''Research'', dj_last_name = [], dj_is_active = True,
      dj_is_staff = False, dj_is_admin = False, dj_is_superuser = False,
      dj_password = Hashed ''pw'', dj_date_joined = Some 6\<rparr>"

section \<open>The matcher decides the language of a pattern\<close>

lemma nullable_lang: "nullable r = ([] \<in> lang r)"
  by (induction r) (auto intro: kleene_empty)

lemma kleene_cons_split:
  assumes "x \<in> kleene A" and "x = c # w"
  shows "\<exists>u v. w = u @ v \<and> c # u \<in> A \<and> v \<in> kleene A"
  using assms
proof (induction arbitrary: w rule: kleene.induct)
  case kleene_empty
  then show ?case by simp
next
  case (kleene_more u v)
  show ?case
  proof (cases u)
    case Nil
    with kleene_more show ?thesis by simp
  next
    case (Cons a u')
    with kleene_more.prems have "a = c" and "w = u' @ v" by simp_all
    with Cons kleene_more.hyps show ?thesis by blast
  qed
qed

lemma kleene_cons:
  "(c # w \<in> kleene A) = (\<exists>u v. w = u @ v \<and> c # u \<in> A \<and> v \<in> kleene A)"
proof
  assume "c # w \<in> kleene A"
  then show "\<exists>u v. w = u @ v \<and> c # u \<in> A \<and> v \<in> kleene A"
    by (rule kleene_cons_split) simp
next
  assume "\<exists>u v. w = u @ v \<and> c # u \<in> A \<and> v \<in> kleene A"
  then obtain u v where "w = u @ v" "c # u \<in> A" "v \<in> kleene A" by blast
  then show "c # w \<in> kleene A"
    using kleene_more [of "c # u" A v] by simp
qed

lemma deriv_lang: "(w \<in> lang (deriv c r)) = (c # w \<in> lang r)"
proof (induction r arbitrary: w)
  case (Seq r s)
  have "(c # w \<in> lang (Seq r s)) =
          (([] \<in> lang r \<and> c # w \<in> lang s) \<or> (\<exists>u v. w = u @ v \<and> c # u \<in> lang r \<and> v \<in> lang s))"
    by (auto simp: Cons_eq_append_conv)
  also have "\<dots> = (w \<in> lang (deriv c (Seq r s)))"
    using Seq by (auto simp: nullable_lang)
  finally show ?case by simp
next
  case (Star r)
  then show ?case by (auto simp: kleene_cons)
qed auto

lemma fullmatch_lang: "fullmatch s r = (s \<in> lang r)"
  by (induction s arbitrary: r) (simp_all add: nullable_lang deriv_lang)

section \<open>Case, white space and the patterns\<close>

lemma of_char_lower_char:
  "(of_char (lower_char c) :: nat) =
     (if (65 \<le> (of_char c :: nat) \<and> (of_char c :: nat) \<le> 90)
         \<or> (192 \<le> (of_char c :: nat) \<and> (of_char c :: nat) \<le> 214)
         \<or> (216 \<le> (of_char c :: nat) \<and> (of_char c :: nat) \<le> 222)
      then of_char c + 32 else of_char c)"
  by (auto simp: lower_char_def Let_def)

lemma lower_char_line_feed: "(lower_char c = line_feed) = (c = line_feed)"
proof -
  have "(lower_char c = line_feed) = ((of_char (lower_char c) :: nat) = of_char line_feed)"
    by simp
  also have "\<dots> = ((of_char c :: nat) = of_char line_feed)"
    by (auto simp: of_char_lower_char line_feed_def)
  also have "\<dots> = (c = line_feed)"
    by simp
  finally show ?thesis .
qed

lemma deriv_lower_char:
  "case_closed r \<Longrightarrow> (of_char c :: nat) < 128 \<Longrightarrow> deriv (lower_char c) r = deriv c r"
  by (induction r) simp_all

lemma case_closed_deriv: "case_closed r \<Longrightarrow> case_closed (deriv c r)"
  by (induction r) simp_all

lemma fullmatch_lower:
  "case_closed r \<Longrightarrow> isascii s \<Longrightarrow> fullmatch (lower s) r = fullmatch s r"
proof (induction s arbitrary: r)
  case Nil
  then show ?case by (simp add: lower_def)
next
  case (Cons c cs)
  have "fullmatch (lower (c # cs)) r = fullmatch (lower cs) (deriv c r)"
    using Cons.prems by (simp add: lower_def isascii_def deriv_lower_char)
  also have "\<dots> = fullmatch cs (deriv c r)"
    using Cons.prems by (intro Cons.IH case_closed_deriv) (simp_all add: isascii_def)
  finally show ?case by simp
qed

lemma re_match_lower:
  assumes "case_closed r" and "isascii s"
  shows "re_match r (lower s) = re_match r s"
proof (cases "rev s")
  case Nil
  then show ?thesis by (simp add: re_match_def lower_def)
next
  case (Cons c cs)
  have s: "s = rev cs @ [c]"
    using Cons by (metis rev_rev_ident rev.simps(2))
  have a: "isascii (rev cs)"
    using assms(2) by (simp add: s isascii_def)
  have 1: "rev (lower s) = lower_char c # map lower_char cs"
    using Cons by (simp add: lower_def rev_map [symmetric])
  have 2: "fullmatch (rev (map lower_char cs)) r = fullmatch (rev cs) r"
    using fullmatch_lower [OF assms(1) a] by (simp add: lower_def rev_map)
  show ?thesis
    by (simp add: re_match_def 1 2 Cons fullmatch_lower [OF assms] lower_char_line_feed)
qed

lemma case_closed_email: "case_closed email_pattern"
  by (simp add: email_pattern_def OneOrMore_def local_class_def domain_class_def alpha_class_def
      lit_def lower_char_def Let_def)

lemma email_pattern_not_nullable: "\<not> nullable email_pattern"
  by (simp add: email_pattern_def OneOrMore_def local_class_def lit_def)

lemma email_pattern_nonempty: "\<not> re_match email_pattern []"
  by (simp add: re_match_def email_pattern_not_nullable)

lemma username_pattern_not_nullable: "\<not> nullable username_pattern"
  by (simp add: username_pattern_def OneOrMore_def word_class_def lit_def)

text \<open>Every character of a string that a pattern matches lies in a class of the pattern.\<close>

lemma class_chars_kleene:
  assumes "s \<in> kleene A" and "\<And>u. u \<in> A \<Longrightarrow> \<forall>c\<in>set u. P c"
  shows "\<forall>c\<in>set s. P c"
  using assms(1) by (induction rule: kleene.induct) (auto dest: assms(2))

lemma class_chars_lang: "class_chars P r \<Longrightarrow> s \<in> lang r \<Longrightarrow> \<forall>c\<in>set s. P c"
proof (induction r arbitrary: s)
  case (Star r)
  then show ?case
    using class_chars_kleene [of s "lang r" P] by simp
qed auto

lemma class_chars_email:
  "class_chars (\<lambda>c. (of_char c :: nat) < 128 \<and> \<not> isspace c) email_pattern"
  by (simp add: email_pattern_def OneOrMore_def local_class_def domain_class_def alpha_class_def
      lit_def isspace_def)

lemma strip_without_space: "\<forall>c\<in>set s. \<not> isspace c \<Longrightarrow> strip s = s"
proof -
  assume a: "\<forall>c\<in>set s. \<not> isspace c"
  have d: "dropWhile isspace xs = xs" if "\<forall>c\<in>set xs. \<not> isspace c" for xs
    using that by (cases xs) simp_all
  show ?thesis
    using a by (simp add: strip_def d)
qed

lemma strip_final_line_feed:
  assumes "\<forall>c\<in>set s. \<not> isspace c" and "s \<noteq> []"
  shows "strip (s @ [line_feed]) = s"
proof -
  have d: "dropWhile isspace xs = xs" if "\<forall>c\<in>set xs. \<not> isspace c" for xs
    using that by (cases xs) simp_all
  obtain c cs where s: "s = c # cs"
    using assms(2) by (cases s) auto
  have "dropWhile isspace (s @ [line_feed]) = s @ [line_feed]"
    using assms(1) by (simp add: s)
  moreover have "isspace line_feed"
    by (simp add: isspace_def line_feed_def)
  ultimately show ?thesis
    using assms(1) by (simp add: strip_def d)
qed

text \<open>A string the email pattern matches holds ASCII characters only, none of them white
  space, and so does its lower-cased form, which the pattern matches too.\<close>

lemma fullmatch_email_isascii: "fullmatch s email_pattern \<Longrightarrow> isascii s"
  using class_chars_lang [OF class_chars_email, of s]
  by (simp add: fullmatch_lang isascii_def list_all_iff)

lemma fullmatch_email_lower:
  assumes "fullmatch s email_pattern"
  shows "fullmatch (lower s) email_pattern" and "\<forall>c\<in>set (lower s). \<not> isspace c"
proof -
  show m: "fullmatch (lower s) email_pattern"
    using assms fullmatch_lower [OF case_closed_email fullmatch_email_isascii [OF assms]] by simp
  then have "lower s \<in> lang email_pattern"
    by (simp add: fullmatch_lang)
  from class_chars_lang [OF class_chars_email this]
  show "\<forall>c\<in>set (lower s). \<not> isspace c" by simp
qed

text \<open>The value the constructor of \<open>Email\<close> stores matches the pattern in full.\<close>

lemma email_canonical:
  assumes "re_match email_pattern v"
  shows "fullmatch (strip (lower v)) email_pattern"
proof (cases "fullmatch v email_pattern")
  case True
  from fullmatch_email_lower [OF True] show ?thesis
    by (simp add: strip_without_space)
next
  case False
  with assms obtain cs where v: "rev v = line_feed # cs" and m: "fullmatch (rev cs) email_pattern"
    by (auto simp: re_match_def split: list.splits)
  then have v': "v = rev cs @ [line_feed]"
    by (metis rev_rev_ident rev.simps(2))
  have ne: "lower (rev cs) \<noteq> []"
    using m email_pattern_not_nullable by (auto simp: lower_def)
  have lf: "lower_char line_feed = line_feed"
    by (simp add: lower_char_def line_feed_def)
  have "strip (lower v) = lower (rev cs)"
    using strip_final_line_feed [OF fullmatch_email_lower(2) [OF m] ne]
    by (simp add: v' lower_def lf)
  with fullmatch_email_lower(1) [OF m] show ?thesis by simp
qed

lemma isspace_lower_char: "isspace (lower_char c) = isspace c"
  by (auto simp: isspace_def of_char_lower_char)

lemma lower_char_idem: "lower_char (lower_char c) = lower_char c"
proof -
  have "(of_char (lower_char (lower_char c)) :: nat) = of_char (lower_char c)"
    by (auto simp: of_char_lower_char)
  then show ?thesis by simp
qed

lemma lower_idem: "lower (lower s) = lower s"
  by (simp add: lower_def lower_char_idem)

lemma dropWhile_isspace_lower: "dropWhile isspace (lower s) = lower (dropWhile isspace s)"
  by (induction s) (simp_all add: lower_def isspace_lower_char)

lemma lower_rev: "rev (lower xs) = lower (rev xs)"
  by (simp add: lower_def rev_map)

lemma lower_strip: "lower (strip s) = strip (lower s)"
  by (simp add: strip_def dropWhile_isspace_lower lower_rev)

lemma dropWhile_rev_dropWhile:
  "dropWhile P (rev (dropWhile P (rev (dropWhile P s)))) = rev (dropWhile P (rev (dropWhile P s)))"
proof -
  define xs where "xs = dropWhile P s"
  define ys where "ys = rev (dropWhile P (rev xs))"
  have xs: "xs = ys @ rev (takeWhile P (rev xs))"
    unfolding ys_def by (metis rev_append rev_rev_ident takeWhile_dropWhile_id)
  have "dropWhile P ys = ys"
  proof (cases ys)
    case Nil
    then show ?thesis by simp
  next
    case (Cons y ys')
    then have "xs \<noteq> []" and "hd xs = y"
      using xs by (metis append_is_Nil_conv list.distinct(1), metis hd_append2 list.distinct(1) list.sel(1))
    then have "\<not> P y"
      unfolding xs_def using hd_dropWhile by metis
    with Cons show ?thesis by simp
  qed
  then show ?thesis by (simp add: xs_def ys_def)
qed

lemma strip_idem: "strip (strip s) = strip s"
  by (simp add: strip_def dropWhile_rev_dropWhile)

lemma strip_lower_idem: "strip (lower (strip (lower s))) = strip (lower s)"
  by (simp add: lower_strip lower_idem strip_idem)


section \<open>The Email value object\<close>

text \<open>
  Claim C9, as amended. The constructor of \<open>Email\<close> accepts exactly the inputs that
  \<open>re.match\<close> accepts against the email pattern as they are given, before they are
  lower-cased and trimmed; the value of an accepted input is its lower-cased, trimmed
  form, which matches the pattern in full; and \<open>re.match\<close> accepts an input of ASCII
  characters exactly when it accepts its lower-cased form, so that such inputs are
  accepted whatever their case.
\<close>

theorem Email_accepts_what_matches:
  "(re_match email_pattern v \<longrightarrow>
      Email_post_init v = Inr (Email (strip (lower v))) \<and>
      fullmatch (strip (lower v)) email_pattern) \<and>
   (\<not> re_match email_pattern v \<longrightarrow> (\<exists>e. Email_post_init v = Inl (ValueError e))) \<and>
   (isascii v \<longrightarrow> re_match email_pattern (lower v) = re_match email_pattern v)"
proof -
  have "Email_post_init v = Inr (Email (strip (lower v)))" if "re_match email_pattern v"
  proof -
    from that have "v \<noteq> []"
      using email_pattern_nonempty by auto
    with that show ?thesis
      by (simp add: Email_post_init_def)
  qed
  moreover have "\<exists>e. Email_post_init v = Inl (ValueError e)" if "\<not> re_match email_pattern v"
    using that by (simp add: Email_post_init_def)
  ultimately show ?thesis
    using email_canonical [of v] re_match_lower [OF case_closed_email, of v] by blast
qed

theorem Email_accepts_what_matches_witness:
  "re_match email_pattern ''Ann.Lee@Example.COM'' \<and>
   Email_post_init ''Ann.Lee@Example.COM'' = Inr (Email ''ann.lee@example.com'') \<and>
   fullmatch ''ann.lee@example.com'' email_pattern \<and>
   isascii ''Ann.Lee@Example.COM'' \<and>
   re_match email_pattern (lower ''Ann.Lee@Example.COM'') \<and>
   re_match email_pattern (''a@b.co'' @ [line_feed]) \<and>
   Email_post_init (''a@b.co'' @ [line_feed]) = Inr (Email ''a@b.co'') \<and>
   \<not> re_match email_pattern ''ann.lee'' \<and>
   (\<exists>e. Email_post_init ''ann.lee'' = Inl (ValueError e))"
proof -
  have h1: "re_match email_pattern ''Ann.Lee@Example.COM''"
    by code_simp
  have s1: "strip (lower ''Ann.Lee@Example.COM'') = ''ann.lee@example.com''"
    by code_simp
  have i1: "isascii ''Ann.Lee@Example.COM''"
    by code_simp
  have h2: "re_match email_pattern (''a@b.co'' @ [line_feed])"
    by code_simp
  have s2: "strip (lower (''a@b.co'' @ [line_feed])) = ''a@b.co''"
    by code_simp
  have h3: "\<not> re_match email_pattern ''ann.lee''"
    by code_simp
  from Email_accepts_what_matches [of "''Ann.Lee@Example.COM''"] h1 s1 i1
  have a: "Email_post_init ''Ann.Lee@Example.COM'' = Inr (Email ''ann.lee@example.com'')"
      "fullmatch ''ann.lee@example.com'' email_pattern"
      "re_match email_pattern (lower ''Ann.Lee@Example.COM'')"
    by simp_all
  from Email_accepts_what_matches [of "''a@b.co'' @ [line_feed]"] h2 s2
  have b: "Email_post_init (''a@b.co'' @ [line_feed]) = Inr (Email ''a@b.co'')"
    by simp
  from Email_accepts_what_matches [of "''ann.lee''"] h3
  have c: "\<exists>e. Email_post_init ''ann.lee'' = Inl (ValueError e)"
    by blast
  from h1 a i1 h2 b h3 c show ?thesis by blast
qed

text \<open>
  Claim C9 as stated fails: the lower-cased, trimmed form of \<open>" Ann@b.co "\<close> matches the
  pattern, yet the constructor rejects the input, because the pattern is matched
  before the value is trimmed.
\<close>

theorem Email_rejects_surrounding_space:
  "re_match email_pattern (strip (lower '' Ann@b.co '')) \<and>
   Email_post_init '' Ann@b.co '' = Inl (ValueError ''Invalid email format'')"
  by code_simp

section \<open>Equality of entities\<close>

text \<open>
  Claim C10 fails on the code. Two \<open>User\<close> instances with the same id that differ in
  \<open>first_name\<close> compare unequal, two unsaved instances (id \<open>None\<close>) with different
  usernames compare unequal, and hashing a \<open>User\<close> raises \<open>TypeError\<close>: the decorator
  \<open>@dataclass\<close> on \<open>User\<close> replaces the id-based methods of \<open>DomainEntity\<close>.
\<close>

theorem User_eq_compares_all_fields:
  "\<not> User_eq
       \<lparr>id' = Some 1, created_at = Some 0, updated_at = 0, username = ''alice'',
        email = ''alice@example.com'', first_name = None, last_name = None, is_active = True,
        is_staff = False, is_admin = False, is_superuser = False, password = None,
        phone_number = Absent\<rparr>
       \<lparr>id' = Some 1, created_at = Some 0, updated_at = 0, username = ''alice'',
        email = ''alice@example.com'', first_name = Some ''Alice'', last_name = None, is_active = True,
        is_staff = False, is_admin = False, is_superuser = False, password = None,
        phone_number = Absent\<rparr> \<and>
   \<not> User_eq
       \<lparr>id' = None, created_at = Some 0, updated_at = 0, username = ''alice'',
        email = ''alice@example.com'', first_name = None, last_name = None, is_active = True,
        is_staff = False, is_admin = False, is_superuser = False, password = None,
        phone_number = Absent\<rparr>
       \<lparr>id' = None, created_at = Some 0, updated_at = 0, username = ''bob'',
        email = ''bob@example.com'', first_name = None, last_name = None, is_active = True,
        is_staff = False, is_admin = False, is_superuser = False, password = None,
        phone_number = Absent\<rparr> \<and>
   User_hash h
       \<lparr>id' = Some 1, created_at = Some 0, updated_at = 0, username = ''alice'',
        email = ''alice@example.com'', first_name = None, last_name = None, is_active = True,
        is_staff = False, is_admin = False, is_superuser = False, password = None,
        phone_number = Absent\<rparr> = Inl (TypeError ''unhashable type: User'')"
  by (simp add: User_eq_def User_hash_def User_eq_method_def User_hash_method_def
      dataclass_eq_def dataclass_hash_def field_tuple_def)

section \<open>The repository's save\<close>

text \<open>
  Whatever entity is saved, the stored row of the result holds \<open>set_password\<close> of the
  entity's password; an entity loaded by \<open>get_by_id\<close> has the password \<open>None\<close>, so saving
  it after a change of its first name leaves an unusable credential.
\<close>

lemma to_domain_password: "to_domain t r = Inr u \<Longrightarrow> password u = None \<and> id' u = dj_id r"
  by (auto simp: to_domain_def User_post_init_def split: if_splits)

lemma get_by_id_password: "get_by_id rs t i = Inr (Some u) \<Longrightarrow> password u = None"
  by (auto simp: get_by_id_def dest: to_domain_password split: sum.splits if_splits)

lemma model_save_stored:
  "model_save rs r = (rs', st) \<Longrightarrow> st \<in> set rs' \<and> dj_password st = dj_password r"
  by (auto simp: model_save_def Let_def list_ex_iff split: option.splits if_splits)

lemma save_stores_password:
  assumes "save rs t e = (Inr s, rs')"
  shows "\<exists>st. st \<in> set rs' \<and> dj_id st = id' s \<and> dj_password st = set_password (password e)"
proof -
  from assms obtain r where r: "to_django rs t e = Inr r"
    by (cases "to_django rs t e") (simp_all add: save_def)
  define r' where "r' = r\<lparr>dj_password := set_password (password e)\<rparr>"
  from assms r have c: "full_clean rs r' = None"
    by (cases "full_clean rs r'") (simp_all add: save_def Let_def r'_def)
  obtain rs'' st where m: "model_save rs r' = (rs'', st)"
    by (cases "model_save rs r'") auto
  from assms r c m have d: "to_domain t st = Inr s" and e: "rs' = rs''"
    by (simp_all add: save_def Let_def r'_def)
  from model_save_stored [OF m] to_domain_password [OF d] e show ?thesis
    by (auto simp: r'_def)
qed

lemma save_loaded_entity_resets_password:
  assumes "get_by_id rs t i = Inr (Some u)"
    and "save rs t (u\<lparr>first_name := n\<rparr>) = (Inr s, rs')"
  shows "\<exists>st. st \<in> set rs' \<and> dj_id st = id' s \<and> dj_password st = Unusable"
  using save_stores_password [OF assms(2)] get_by_id_password [OF assms(1)]
  by (simp add: set_password_def)

text \<open>
  Claim C8 fails on the code. The entity loaded by \<open>get_by_id\<close> carries \<open>password = None\<close>;
  after only its first name is changed, \<open>save\<close> also replaces the stored credential
  \<open>Hashed secret\<close> by an unusable one, because \<open>set_password(entity.password)\<close> runs for
  every entity.
\<close>

theorem save_resets_password:
  "get_by_id [alice_row] 7 1 = Inr (Some alice) \<and>
   save [alice_row] 7 (alice\<lparr>first_name := Some ''Alicia''\<rparr>) =
     (Inr (alice\<lparr>first_name := Some ''Alicia''\<rparr>),
      [alice_row\<lparr>dj_first_name := ''Alicia'', dj_password := Unusable\<rparr>])"
  by code_simp

section \<open>CreateUser\<close>

text \<open>
  Claim C2 fails on the code. After \<open>username@x.com\<close> is registered, registering
  \<open>Username@x.com\<close> under another username raises a conflict whose \<open>field\<close> is
  \<open>username\<close>: the message of the email conflict quotes the email, and the tag is chosen
  by looking for \<open>Username\<close> in the message.
\<close>

theorem CreateUser_duplicate_email_tagged_username:
  "fst (CreateUserUseCase_execute (ServiceContainer_init [] 7) first_registration) =
     Inr \<lparr>dto_id = Some 1, dto_username = ''ursula'', dto_email = ''username@x.com'',
          dto_first_name = Some [], dto_last_name = Some [], dto_is_active = True,
          dto_is_staff = False, dto_is_admin = False, dto_is_superuser = False\<rparr> \<and>
   fst (CreateUserUseCase_execute
          (snd (CreateUserUseCase_execute (ServiceContainer_init [] 7) first_registration))
          second_registration) =
     Inl (ConflictError (''Email '' @ [CHR 0x27] @ ''Username@x.com'' @ [CHR 0x27] @ '' is already taken'')
            [(''field'', ''username'')])"
  by code_simp

section \<open>ChangePassword\<close>

text \<open>No call of \<open>execute\<close> returns normally or changes the state.\<close>

lemma ChangePassword_never_returns:
  "snd (ChangePasswordUseCase_execute policy w i old new) = w \<and>
   (\<forall>x. fst (ChangePasswordUseCase_execute policy w i old new) \<noteq> Inr x)"
  by (auto simp: ChangePasswordUseCase_execute_def ChangePasswordUseCase_run_def
      User_check_password_def split: sum.splits option.splits)

text \<open>
  What the body of \<open>execute\<close> would do if the entity verified the old password against
  the stored credential: with the right old password it saves the loaded entity, whose
  password is \<open>None\<close>, so the stored credential becomes unusable rather than the new
  password; with a wrong one it raises the \<open>ValidationError\<close> of rest\_framework.
\<close>

lemma ChangePassword_run_with_stored_check:
  "fst (ChangePasswordUseCase_run (\<lambda>u raw. Inr (check_password alice_row raw)) accept_all
          (ServiceContainer_init [alice_row] 7) 1 ''secret'' ''correct horse battery'') = Inr () \<and>
   rows (snd (ChangePasswordUseCase_run (\<lambda>u raw. Inr (check_password alice_row raw)) accept_all
          (ServiceContainer_init [alice_row] 7) 1 ''secret'' ''correct horse battery'')) =
     [alice_row\<lparr>dj_password := Unusable\<rparr>] \<and>
   fst (ChangePasswordUseCase_run (\<lambda>u raw. Inr (check_password alice_row raw)) accept_all
          (ServiceContainer_init [alice_row] 7) 1 ''guess'' ''correct horse battery'') =
     Inl (DRFValidationError ''Your old password was entered incorrectly. Please enter it again.'')"
  by code_simp

text \<open>
  Claim C1 fails on the code. With the correct old password and a new password the
  validator accepts, \<open>execute\<close> raises \<open>AttributeError\<close> at the call of \<open>check_password\<close>;
  the table is unchanged and no event is published.
\<close>

theorem ChangePassword_correct_old_password_raises:
  "fst (ChangePasswordUseCase_execute accept_all (ServiceContainer_init [alice_row] 7) 1
          ''secret'' ''correct horse battery'') = Inl (AttributeError ''check_password'') \<and>
   rows (snd (ChangePasswordUseCase_execute accept_all (ServiceContainer_init [alice_row] 7) 1
          ''secret'' ''correct horse battery'')) = [alice_row] \<and>
   published (snd (ChangePasswordUseCase_execute accept_all (ServiceContainer_init [alice_row] 7) 1
          ''secret'' ''correct horse battery'')) = []"
  by code_simp

text \<open>
  Claim C6 fails on the code. With a wrong old password \<open>execute\<close> publishes nothing, as
  claimed, but what it raises is \<open>AttributeError\<close>, which is not an application error.
\<close>

theorem ChangePassword_wrong_old_password_raises_AttributeError:
  "fst (ChangePasswordUseCase_execute accept_all (ServiceContainer_init [alice_row] 7) 1
          ''guess'' ''correct horse battery'') = Inl (AttributeError ''check_password'') \<and>
   \<not> is_ApplicationError (AttributeError ''check_password'') \<and>
   published (snd (ChangePasswordUseCase_execute accept_all (ServiceContainer_init [alice_row] 7) 1
          ''guess'' ''correct horse battery'')) = []"
  by code_simp

section \<open>The event publisher\<close>

lemma calls_of_append: "calls_of (xs @ ys) = calls_of xs @ calls_of ys"
  by (induction xs) (simp_all split: effect.splits)

lemma notify_subscriber_isolated:
  "isolated ev h \<Longrightarrow>
     fst (notify_subscriber h ev) = Inr () \<and> calls_of (snd (notify_subscriber h ev)) = [handler_key h]"
  by (auto simp: isolated_def notify_subscriber_def format_exception_def split: option.splits)

lemma notify_each_isolated:
  "list_all (isolated ev) hs \<Longrightarrow>
     fst (notify_each hs ev) = Inr () \<and> calls_of (snd (notify_each hs ev)) = map handler_key hs"
proof (induction hs)
  case Nil
  then show ?case by simp
next
  case (Cons h hs)
  then have h: "fst (notify_subscriber h ev) = Inr ()"
      "calls_of (snd (notify_subscriber h ev)) = [handler_key h]"
    using notify_subscriber_isolated [of ev h] by simp_all
  from Cons have t: "fst (notify_each hs ev) = Inr ()"
      "calls_of (snd (notify_each hs ev)) = map handler_key hs"
    by simp_all
  obtain fx where a: "notify_subscriber h ev = (Inr (), fx)"
    using h(1) by (cases "notify_subscriber h ev") auto
  obtain fx' where b: "notify_each hs ev = (Inr (), fx')"
    using t(1) by (cases "notify_each hs ev") auto
  show ?case using h t a b by (simp add: calls_of_append)
qed

text \<open>
  What \<open>publish\<close> does when every handler it visits returns, or raises an exception that
  derives from \<open>Exception\<close> and can be formatted while the handler has a \<open>__name__\<close>: the
  event is appended to the history, every handler is called once, in the order of the
  two loops, and \<open>publish\<close> returns.
\<close>

lemma publish_returns_when_isolated:
  assumes "list_all (isolated ev) (handlers_for p ev)"
  shows "\<exists>fx. publish p ev = (Inr (), p\<lparr>events := events p @ [ev]\<rparr>, fx) \<and>
              calls_of fx = map handler_key (handlers_for p ev)"
proof -
  define typed where
    "typed = (case subscribers_by_type p (type_of ev) of None \<Rightarrow> [] | Some hs \<Rightarrow> hs)"
  have split: "handlers_for p ev = typed @ all_subscribers p"
    by (simp add: handlers_for_def typed_def)
  have 1: "list_all (isolated ev) typed" and 2: "list_all (isolated ev) (all_subscribers p)"
    using assms by (simp_all add: split)
  obtain fx1 where a: "notify_each typed ev = (Inr (), fx1)"
      and ca: "calls_of fx1 = map handler_key typed"
    using notify_each_isolated [OF 1] by (cases "notify_each typed ev") auto
  obtain fx2 where b: "notify_each (all_subscribers p) ev = (Inr (), fx2)"
      and cb: "calls_of fx2 = map handler_key (all_subscribers p)"
    using notify_each_isolated [OF 2] by (cases "notify_each (all_subscribers p) ev") auto
  have first:
    "(case subscribers_by_type p (type_of ev) of
        None \<Rightarrow> (Inr (), []) | Some hs \<Rightarrow> notify_each hs ev) = (Inr (), fx1)"
    using a by (simp add: typed_def split: option.splits)
  have "publish p ev = (Inr (), p\<lparr>events := events p @ [ev]\<rparr>, fx1 @ fx2)"
    by (simp add: publish_def Let_def first b)
  moreover have "calls_of (fx1 @ fx2) = map handler_key (handlers_for p ev)"
    by (simp add: calls_of_append ca cb split)
  ultimately show ?thesis by blast
qed

text \<open>
  Claim C4 fails on the code. In the test scenario of the spec, with a first subscriber
  that is a callable object without \<open>__name__\<close> and raises \<open>ValueError\<close>, the exception is
  caught, but the log statement inside the \<open>except\<close> block reads \<open>subscriber.__name__\<close> and
  raises \<open>AttributeError\<close>: \<open>publish\<close> raises it after the first handler, and the second
  and the third handler are never called, against the comment
  \<open>Don't fail the operation if event handling fails\<close> of \<open>_notify_subscriber\<close>.
\<close>

theorem publish_raises_when_nameless_handler_raises:
  "fst (publish (three_subscribers (raising_callable 1 (ValueError ''boom''))) alice_created) =
     Inl (AttributeError ''__name__'') \<and>
   snd (snd (publish (three_subscribers (raising_callable 1 (ValueError ''boom''))) alice_created)) =
     [Called 1 alice_created] \<and>
   map handler_key
     (handlers_for (three_subscribers (raising_callable 1 (ValueError ''boom''))) alice_created) =
     [1, 2, 3]"
  by code_simp

text \<open>
  The same scenario with a first subscriber that is a function: its \<open>ValueError\<close> is
  caught and logged and all three handlers are called. When the exception it raises
  cannot be formatted, the log statement raises \<open>TypeError\<close>, and when it raises
  \<open>KeyboardInterrupt\<close>, which \<open>except Exception\<close> does not catch, that exception leaves
  \<open>publish\<close>; in both cases the second and the third handler are not called.
\<close>

lemma publish_logs_function_failure:
  "fst (publish (three_subscribers (raising_handler 1 (ValueError ''boom''))) alice_created) = Inr () \<and>
   snd (snd (publish (three_subscribers (raising_handler 1 (ValueError ''boom''))) alice_created)) =
     [Called 1 alice_created, Logged UserCreated ''on_event'' (ValueError ''boom''),
      Called 2 alice_created, Called 3 alice_created]"
  by code_simp

lemma publish_raises_when_exception_unprintable:
  "fst (publish (three_subscribers (raising_handler 1 UnprintableError)) alice_created) =
     Inl (TypeError ''__str__ returned non-string'') \<and>
   calls_of (snd (snd (publish (three_subscribers (raising_handler 1 UnprintableError)) alice_created))) =
     [1]"
  by code_simp

lemma publish_propagates_KeyboardInterrupt:
  "fst (publish (three_subscribers (raising_handler 1 KeyboardInterrupt)) alice_created) =
     Inl KeyboardInterrupt \<and>
   calls_of (snd (snd (publish (three_subscribers (raising_handler 1 KeyboardInterrupt)) alice_created))) =
     [1]"
  by code_simp

section \<open>AuthenticateUser\<close>







section \<open>The invariant of the User entity\<close>

lemma User_post_init_Inr:
  "User_post_init u = Inr u' \<Longrightarrow>
     valid_username (username u') \<and> u' = u\<lparr>email := strip (lower (email u))\<rparr>"
  by (auto simp: User_post_init_def valid_username_def split: if_splits)

lemma User_post_init_rejects:
  "username u = [] \<or> email u = [] \<or> \<not> re_match username_pattern (username u) \<Longrightarrow>
     \<exists>e. User_post_init u = Inl (ValueError e)"
  by (auto simp: User_post_init_def)

lemma User_post_init_accepts:
  assumes "fullmatch (username u) username_pattern" and "strip (lower (email u)) \<noteq> []"
  shows "User_post_init u = Inr (u\<lparr>email := strip (lower (email u))\<rparr>)"
proof -
  have "username u \<noteq> []"
    using assms(1) username_pattern_not_nullable by auto
  moreover have "email u \<noteq> []"
    using assms(2) by (auto simp: lower_def strip_def)
  moreover have "re_match username_pattern (username u)"
    using assms(1) by (simp add: re_match_def)
  ultimately show ?thesis
    by (simp add: User_post_init_def)
qed

lemma to_domain_Inr: "to_domain t r = Inr u \<Longrightarrow> valid_username (username u)"
  unfolding to_domain_def by (drule User_post_init_Inr) auto

lemma save_Inr: "save rs t e = (Inr u, rs') \<Longrightarrow> valid_username (username u)"
  by (auto simp: save_def Let_def to_domain_Inr split: sum.splits option.splits prod.splits)

lemma get_by_id_Some: "get_by_id rs t i = Inr (Some u) \<Longrightarrow> valid_username (username u)"
  by (auto simp: get_by_id_def to_domain_Inr split: sum.splits if_splits)

lemma GetUser_view: "GetUserUseCase_execute w i = Inr v \<Longrightarrow> valid_username (dto_username v)"
  by (auto simp: GetUserUseCase_execute_def to_dto_def dest: get_by_id_Some
      split: sum.splits option.splits)

text \<open>What \<open>save\<close> returns holds the fields of the entity it was given.\<close>

lemma to_django_fields:
  assumes "to_django rs t e = Inr r"
  shows "dj_username r = username e" and "dj_email r = email e"
    and "dj_first_name r = or_empty (first_name e)" and "dj_last_name r = or_empty (last_name e)"
    and "dj_is_active r = is_active e" and "dj_is_staff r = is_staff e"
    and "dj_is_admin r = is_admin e" and "dj_is_superuser r = is_superuser e"
  using assms
  by (auto simp: to_django_def copy_phone_number_def DjangoUser_has_phone_number_def
      split: if_splits sum.splits)

lemma model_save_fields:
  assumes "model_save rs r = (rs', st)"
  shows "dj_username st = dj_username r" and "dj_email st = dj_email r"
    and "dj_first_name st = dj_first_name r" and "dj_last_name st = dj_last_name r"
    and "dj_is_active st = dj_is_active r" and "dj_is_staff st = dj_is_staff r"
    and "dj_is_admin st = dj_is_admin r" and "dj_is_superuser st = dj_is_superuser r"
  using assms
  by (auto simp: model_save_def Let_def split: option.splits if_splits)

lemma to_domain_fields:
  assumes "to_domain t r = Inr u"
  shows "username u = dj_username r" and "email u = strip (lower (dj_email r))"
    and "first_name u = Some (dj_first_name r)" and "last_name u = Some (dj_last_name r)"
    and "is_active u = dj_is_active r" and "is_staff u = dj_is_staff r"
    and "is_admin u = dj_is_admin r" and "is_superuser u = dj_is_superuser r"
    and "id' u = dj_id r"
  using assms
  by (auto simp: to_domain_def User_post_init_def split: if_splits)

lemma save_fields:
  assumes "save rs t e = (Inr s, rs')"
  shows "username s = username e" and "email s = strip (lower (email e))"
    and "first_name s = Some (or_empty (first_name e))"
    and "last_name s = Some (or_empty (last_name e))"
    and "is_active s = is_active e" and "is_staff s = is_staff e"
    and "is_admin s = is_admin e" and "is_superuser s = is_superuser e"
proof -
  from assms obtain r where r: "to_django rs t e = Inr r"
    by (cases "to_django rs t e") (simp_all add: save_def)
  define r' where "r' = r\<lparr>dj_password := set_password (password e)\<rparr>"
  from assms r have c: "full_clean rs r' = None"
    by (cases "full_clean rs r'") (simp_all add: save_def Let_def r'_def)
  obtain rs'' st where m: "model_save rs r' = (rs'', st)"
    by (cases "model_save rs r'") auto
  from assms r c m have d: "to_domain t st = Inr s"
    by (simp add: save_def Let_def r'_def)
  note a = to_django_fields [OF r] and b = model_save_fields [OF m] and k = to_domain_fields [OF d]
  show "username s = username e" using a(1) b(1) k(1) by (simp add: r'_def)
  show "email s = strip (lower (email e))" using a(2) b(2) k(2) by (simp add: r'_def)
  show "first_name s = Some (or_empty (first_name e))" using a(3) b(3) k(3) by (simp add: r'_def)
  show "last_name s = Some (or_empty (last_name e))" using a(4) b(4) k(4) by (simp add: r'_def)
  show "is_active s = is_active e" using a(5) b(5) k(5) by (simp add: r'_def)
  show "is_staff s = is_staff e" using a(6) b(6) k(6) by (simp add: r'_def)
  show "is_admin s = is_admin e" using a(7) b(7) k(7) by (simp add: r'_def)
  show "is_superuser s = is_superuser e" using a(8) b(8) k(8) by (simp add: r'_def)
qed

text \<open>\<open>validate_user_creation\<close> passes only an email that the constructor of \<open>Email\<close>
  accepts, so the view \<open>CreateUser\<close> returns holds an email that matches the pattern.\<close>

lemma validate_user_creation_email:
  "validate_user_creation rs t name mail = None \<Longrightarrow> re_match email_pattern mail"
  by (auto simp: validate_user_creation_def Email_post_init_def
      split: sum.splits if_splits bool.splits)

lemma CreateUser_view:
  assumes "CreateUserUseCase_execute w d = (Inr v, w')"
  shows "valid_username (dto_username v)"
    and "dto_email v = strip (lower (create_email d))"
    and "fullmatch (dto_email v) email_pattern"
proof -
  define u0 where
    "u0 = \<lparr>id' = None, created_at = Some (clock w), updated_at = clock w,
            username = create_username d, email = create_email d,
            first_name = create_first_name d, last_name = create_last_name d,
            is_active = True, is_staff = False, is_admin = False, is_superuser = False,
            password = Some (create_password d), phone_number = Absent\<rparr>"
  from assms have val:
    "validate_user_creation (rows w) (clock w) (create_username d) (create_email d) = None"
    by (auto simp: CreateUserUseCase_execute_def split: option.splits)
  from assms val obtain user where user: "User_post_init u0 = Inr user"
    by (cases "User_post_init u0") (simp_all add: CreateUserUseCase_execute_def u0_def)
  from assms val user obtain saved rs where
    saved: "save (rows w) (clock w) user = (Inr saved, rs)" and v: "v = to_dto saved"
    by (auto simp: CreateUserUseCase_execute_def u0_def split: sum.splits prod.splits)
  from User_post_init_Inr [OF user] have e: "email user = strip (lower (create_email d))"
    by (simp add: u0_def)
  show "valid_username (dto_username v)"
    using save_Inr [OF saved] by (simp add: v to_dto_def)
  show m: "dto_email v = strip (lower (create_email d))"
    using save_fields(2) [OF saved] by (simp add: v to_dto_def e strip_lower_idem)
  show "fullmatch (dto_email v) email_pattern"
    unfolding m by (rule email_canonical [OF validate_user_creation_email [OF val]])
qed

lemma assign_fields_username: "username (fst (assign_fields u d)) = username u"
  by (simp add: assign_fields_def split: option.splits)

lemma assign_fields_email:
  "upd_email d = Some m \<Longrightarrow> email (fst (assign_fields u d)) = strip (lower m)"
  by (simp add: assign_fields_def split: option.splits)

text \<open>
  Claim C5, as amended. Constructing a \<open>User\<close> with an empty username, an empty email or
  a username that \<open>re.match\<close> rejects against the username pattern fails with
  \<open>ValueError\<close>; constructing one whose username matches the pattern in full and whose
  email is not blank succeeds, whatever the shape of the email. A constructed \<open>User\<close> has
  a non-empty username that \<open>re.match\<close> accepts and holds the lower-cased, trimmed form
  of the email it was given. A view that \<open>CreateUser\<close> returns has such a username and
  an email that is the lower-cased, trimmed form of the submitted one and matches the
  email pattern in full; a view that \<open>GetUser\<close> returns has such a username; and the
  field assignments of \<open>UpdateUser\<close> leave the username as it was and set the email to
  the lower-cased, trimmed form of a supplied one, whatever its shape.
\<close>

theorem User_construction_checks_username:
  "(username u = [] \<or> email u = [] \<or> \<not> re_match username_pattern (username u) \<longrightarrow>
      (\<exists>e. User_post_init u = Inl (ValueError e))) \<and>
   (fullmatch (username u) username_pattern \<and> strip (lower (email u)) \<noteq> [] \<longrightarrow>
      User_post_init u = Inr (u\<lparr>email := strip (lower (email u))\<rparr>)) \<and>
   (User_post_init u = Inr u' \<longrightarrow>
      valid_username (username u') \<and> email u' = strip (lower (email u))) \<and>
   (CreateUserUseCase_execute wc d = (Inr v1, w1) \<longrightarrow>
      valid_username (dto_username v1) \<and> dto_email v1 = strip (lower (create_email d)) \<and>
      fullmatch (dto_email v1) email_pattern) \<and>
   (GetUserUseCase_execute wg j = Inr v3 \<longrightarrow> valid_username (dto_username v3)) \<and>
   username (fst (assign_fields u2 upd)) = username u2 \<and>
   (upd_email upd = Some m \<longrightarrow> email (fst (assign_fields u2 upd)) = strip (lower m))"
proof -
  have "User_post_init u = Inr u' \<longrightarrow>
      valid_username (username u') \<and> email u' = strip (lower (email u))"
    using User_post_init_Inr [of u u'] by auto
  then show ?thesis
    using User_post_init_rejects [of u] User_post_init_accepts [of u]
      CreateUser_view [of wc d v1 w1] GetUser_view [of wg j v3]
      assign_fields_username [of u2 upd] assign_fields_email [of upd m u2]
    by blast
qed

theorem User_construction_checks_username_witness:
  "(\<exists>e. User_post_init (alice\<lparr>username := ''john.doe''\<rparr>) = Inl (ValueError e)) \<and>
   (\<exists>e. User_post_init (alice\<lparr>email := []\<rparr>) = Inl (ValueError e)) \<and>
   fullmatch (username alice) username_pattern \<and>
   User_post_init (alice\<lparr>email := ''Alice@Example.com ''\<rparr>) = Inr alice \<and>
   valid_username (username alice) \<and>
   fst (CreateUserUseCase_execute (ServiceContainer_init [] 7) second_registration) =
     Inr \<lparr>dto_id = Some 1, dto_username = ''bob'', dto_email = ''username@x.com'',
          dto_first_name = Some [], dto_last_name = Some [], dto_is_active = True,
          dto_is_staff = False, dto_is_admin = False, dto_is_superuser = False\<rparr> \<and>
   valid_username ''bob'' \<and> fullmatch ''username@x.com'' email_pattern \<and>
   GetUserUseCase_execute (ServiceContainer_init [alice_row] 7) 1 = Inr (row_view alice_row) \<and>
   valid_username (dto_username (row_view alice_row)) \<and>
   email (fst (assign_fields alice (UserUpdateDTO None None (Some '' Alice@Example.ORG '')))) =
     ''alice@example.org''"
proof -
  let ?wc = "ServiceContainer_init [] 7"
  let ?w = "ServiceContainer_init [alice_row] 7"
  let ?v1 = "\<lparr>dto_id = Some 1, dto_username = ''bob'', dto_email = ''username@x.com'',
          dto_first_name = Some [], dto_last_name = Some [], dto_is_active = True,
          dto_is_staff = False, dto_is_admin = False, dto_is_superuser = False\<rparr>"
  let ?upd = "UserUpdateDTO None None (Some '' Alice@Example.ORG '')"
  have r1: "\<not> re_match username_pattern (username (alice\<lparr>username := ''john.doe''\<rparr>))"
    by code_simp
  have r2: "email (alice\<lparr>email := []\<rparr>) = []"
    by simp
  have a1: "fullmatch (username (alice\<lparr>email := ''Alice@Example.com ''\<rparr>)) username_pattern"
    by code_simp
  have a2: "strip (lower (email (alice\<lparr>email := ''Alice@Example.com ''\<rparr>))) \<noteq> []"
    by code_simp
  have a3: "(alice\<lparr>email := ''Alice@Example.com ''\<rparr>)
              \<lparr>email := strip (lower (email (alice\<lparr>email := ''Alice@Example.com ''\<rparr>)))\<rparr> = alice"
    by code_simp
  have a4: "fullmatch (username alice) username_pattern"
    by code_simp
  have f1: "fst (CreateUserUseCase_execute ?wc second_registration) = Inr ?v1"
    by code_simp
  then have u1: "CreateUserUseCase_execute ?wc second_registration =
      (Inr ?v1, snd (CreateUserUseCase_execute ?wc second_registration))"
    by (metis prod.collapse)
  have g: "GetUserUseCase_execute ?w 1 = Inr (row_view alice_row)"
    by code_simp
  have m: "upd_email ?upd = Some '' Alice@Example.ORG ''"
    by (simp add: UserUpdateDTO_def)
  have s: "strip (lower '' Alice@Example.ORG '') = ''alice@example.org''"
    by code_simp
  have t1: "\<exists>e. User_post_init (alice\<lparr>username := ''john.doe''\<rparr>) = Inl (ValueError e)"
    using User_construction_checks_username [of "alice\<lparr>username := ''john.doe''\<rparr>"] r1 by blast
  have t2: "\<exists>e. User_post_init (alice\<lparr>email := []\<rparr>) = Inl (ValueError e)"
    using User_construction_checks_username [of "alice\<lparr>email := []\<rparr>"] r2 by blast
  note t = User_construction_checks_username
    [of "alice\<lparr>email := ''Alice@Example.com ''\<rparr>" alice
       ?wc second_registration ?v1 "snd (CreateUserUseCase_execute ?wc second_registration)"
       ?w 1 "row_view alice_row" alice ?upd "'' Alice@Example.ORG ''"]
  from t a1 a2 a3 have c: "User_post_init (alice\<lparr>email := ''Alice@Example.com ''\<rparr>) = Inr alice"
    by simp
  from t c u1 g m have "valid_username (username alice) \<and> valid_username (dto_username ?v1) \<and>
      fullmatch (dto_email ?v1) email_pattern \<and>
      valid_username (dto_username (row_view alice_row)) \<and>
      email (fst (assign_fields alice ?upd)) = strip (lower '' Alice@Example.ORG '')"
    by blast
  with t1 t2 a4 c f1 g s show ?thesis by simp
qed

text \<open>
  Claim C5 as stated fails: a \<open>User\<close> is constructed with an email that does not have the
  shape of an address; \<open>GetUser\<close> returns the view of a stored user whose email the
  pattern of \<open>Email\<close> does not accept; and the assignment of \<open>UpdateUser\<close> leaves the
  loaded entity with such an email.
\<close>

theorem User_accepts_malformed_email:
  "\<not> re_match email_pattern ''not-an-email'' \<and>
   User_post_init (alice\<lparr>email := ''not-an-email''\<rparr>) = Inr (alice\<lparr>email := ''not-an-email''\<rparr>) \<and>
   \<not> re_match email_pattern ''r&d@example.com'' \<and>
   GetUserUseCase_execute (ServiceContainer_init [ampersand_row] 7) 4 = Inr (row_view ampersand_row) \<and>
   dto_email (row_view ampersand_row) = ''r&d@example.com'' \<and>
   email (fst (assign_fields alice (UserUpdateDTO None None (Some ''r&d@example.com'')))) =
     ''r&d@example.com''"
  by code_simp

section \<open>UpdateUser\<close>

text \<open>
  An object built by the dataclass \<open>UserUpdateDTO\<close> has no \<open>phone_number\<close>, and line 126
  reads that attribute whatever was supplied: no call of \<open>execute\<close> with such an object
  returns, and none changes the table or publishes an event.
\<close>

lemma UpdateUser_with_UserUpdateDTO_never_returns:
  "fst (UpdateUserUseCase_execute w i (UserUpdateDTO fn ln em)) \<noteq> Inr v \<and>
   snd (UpdateUserUseCase_execute w i (UserUpdateDTO fn ln em)) = w"
  by (auto simp: UpdateUserUseCase_execute_def UserUpdateDTO_def update_fields_def
      split: sum.splits option.splits prod.splits)

text \<open>
  Claim C3 fails on the code. For the stored user 1 and the request that supplies only
  \<open>first_name\<close>, where the claim has the name changed and one \<open>UserUpdated\<close> event with the
  list \<open>["first_name"]\<close> published, \<open>execute\<close> raises \<open>AttributeError\<close> at the read of
  \<open>user_data.phone_number\<close>: the table is as before and no event is published. The
  request that supplies no field raises in the same way, where the claim has it return.
\<close>

theorem UpdateUser_with_UserUpdateDTO_raises:
  "fst (UpdateUserUseCase_execute (ServiceContainer_init [alice_row] 7) 1
          (UserUpdateDTO (Some ''Alicia'') None None)) = Inl (AttributeError ''phone_number'') \<and>
   rows (snd (UpdateUserUseCase_execute (ServiceContainer_init [alice_row] 7) 1
          (UserUpdateDTO (Some ''Alicia'') None None))) = [alice_row] \<and>
   published (snd (UpdateUserUseCase_execute (ServiceContainer_init [alice_row] 7) 1
          (UserUpdateDTO (Some ''Alicia'') None None))) = [] \<and>
   fst (UpdateUserUseCase_execute (ServiceContainer_init [alice_row] 7) 1
          (UserUpdateDTO None None None)) = Inl (AttributeError ''phone_number'')"
  by code_simp

text \<open>
  When line 126 is reached the list \<open>updated_fields\<close> holds the name of every field that
  was supplied, also of one whose value is the stored one.
\<close>

lemma assign_fields_records_supplied_field:
  "first_name alice = Some ''Alice'' \<and>
   snd (assign_fields alice (UserUpdateDTO (Some ''Alice'') None None)) = [''first_name'']"
  by code_simp

end
